theory Spec2Isabelle
  imports Complex_Main "HOL-Library.Char_ord" "HOL-Library.List_Lexorder" "HOL-Library.AList"
begin

section \<open>The LLM response cache of ePub Translator\<close>

text \<open>
  A shallow embedding of \<^verbatim>\<open>backend/app/core/cache/llm_cache.py\<close> (\<^verbatim>\<open>CacheEntry\<close>,
  \<^verbatim>\<open>LLMCache\<close>) and \<^verbatim>\<open>backend/app/core/cache/cached_gateway.py\<close>
  (\<^verbatim>\<open>CachedLLMGateway\<close>).

  Modelling decisions, all of them about the Python library and the platform, none about
  the repository's own code:
  \<^item> Python values that reach the cache are JSON values (\<open>json\<close>). Python \<^verbatim>\<open>None\<close> is
    \<open>JNull\<close>. Python floats are idealised as rationals; \<^verbatim>\<open>nan\<close> and \<^verbatim>\<open>inf\<close> are
    outside the model. Dictionaries are association lists in insertion order whose keys
    are distinct strings.
  \<^item> A file of the responses directory is represented by what \<^verbatim>\<open>json.load\<close> makes of
    its text: \<open>Undecodable\<close> when \<^verbatim>\<open>json.load\<close> raises \<^verbatim>\<open>JSONDecodeError\<close>,
    \<open>Document v\<close> when it returns \<open>v\<close>. Writing \<^verbatim>\<open>json.dump(v)\<close> stores
    \<open>Document v\<close>: reading back what \<^verbatim>\<open>json.dump\<close> wrote gives the value written.
    The file system itself never fails (no \<^verbatim>\<open>IOError\<close>), and one thread runs.
  \<^item> \<^verbatim>\<open>time.time()\<close> is a clock that is read: the \<open>n\<close>-th call of a run returns
    \<open>time_time E n\<close>, and the state counts the calls made so far (\<open>ticks\<close>). Two
    calls in a row are two readings.
  \<^item> SHA-256 (\<open>sha256_hexdigest\<close>), \<^verbatim>\<open>float.__repr__\<close> (\<open>float_repr\<close>) and
    \<^verbatim>\<open>stat().st_size\<close> (\<open>st_size\<close>) are parameters, collected in \<open>env\<close>. So are
    the operations of the statistics whose result depends on the binary form of a
    double: \<open>float_sub E a b\<close> is what \<^verbatim>\<open>a - b\<close> gives for a double \<open>a\<close> and a
    number \<open>b\<close>, \<open>true_div E a b\<close> is what \<^verbatim>\<open>a / b\<close> gives for numbers of these
    values and a divisor that is not zero (each a double, or \<^verbatim>\<open>OverflowError\<close> when an
    integer operand or the quotient of two integers has none), and \<open>py_round E x n\<close> is
    what \<^verbatim>\<open>round(x, n)\<close> gives for the double \<open>x\<close>. In \<^verbatim>\<open>is_expired\<close> the age of an
    entry is the exact difference of the clock reading and \<^verbatim>\<open>created_at\<close>.
  \<^item> Every exception the code can raise on such inputs is a value of \<open>py_error\<close>;
    logging is not modelled.
\<close>

subsection \<open>Python values\<close>

datatype json =
    JNull
  | JBool bool
  | JInt int
  | JFloat rat
  | JStr string
  | JArr "json list"
  | JObj "(string \<times> json) list"

datatype py_error =
    JSONDecodeError
  | KeyError
  | IOError
  | TypeError
  | AttributeError
  | OverflowError
  | GatewayError string

datatype file_content = Undecodable | Document json

record env =
  sha256_hexdigest :: "string \<Rightarrow> string"
  float_repr :: "rat \<Rightarrow> string"
  time_time :: "nat \<Rightarrow> rat"
  st_size :: "file_content \<Rightarrow> nat"
  float_sub :: "rat \<Rightarrow> rat \<Rightarrow> py_error + rat"
  true_div :: "rat \<Rightarrow> rat \<Rightarrow> py_error + rat"
  py_round :: "rat \<Rightarrow> nat \<Rightarrow> rat"

text \<open>The responses directory (file name to content, in directory order) and the number
  of clock readings taken so far.\<close>

record world =
  files :: "(string \<times> file_content) list"
  ticks :: nat

text \<open>Truth value of a Python object, as \<^verbatim>\<open>if x:\<close> and \<^verbatim>\<open>x or y\<close> test it.\<close>

fun truthy :: "json \<Rightarrow> bool" where
  "truthy JNull = False"
| "truthy (JBool b) = b"
| "truthy (JInt i) = (i \<noteq> 0)"
| "truthy (JFloat x) = (x \<noteq> 0)"
| "truthy (JStr s) = (s \<noteq> [])"
| "truthy (JArr xs) = (xs \<noteq> [])"
| "truthy (JObj kvs) = (kvs \<noteq> [])"

text \<open>The numeric value of a Python number (\<^verbatim>\<open>bool\<close> is a subclass of \<^verbatim>\<open>int\<close>);
  \<open>None\<close> for every other object.\<close>

fun num_of :: "json \<Rightarrow> rat option" where
  "num_of (JBool b) = Some (if b then 1 else 0)"
| "num_of (JInt i) = Some (of_int i)"
| "num_of (JFloat x) = Some x"
| "num_of _ = None"

fun int_of :: "json \<Rightarrow> int" where
  "int_of (JBool b) = (if b then 1 else 0)"
| "int_of (JInt i) = i"
| "int_of _ = 0"

fun is_float :: "json \<Rightarrow> bool" where
  "is_float (JFloat x) = True"
| "is_float _ = False"

text \<open>\<^verbatim>\<open>a + b\<close> where one operand is known to be a number: the sum of two numbers (a
  float as soon as one of them is), \<^verbatim>\<open>TypeError\<close> otherwise.\<close>

definition py_add :: "json \<Rightarrow> json \<Rightarrow> py_error + json" where
  "py_add a b =
     (case (num_of a, num_of b) of
        (Some x, Some y) \<Rightarrow>
          Inr (if is_float a \<or> is_float b then JFloat (x + y) else JInt (int_of a + int_of b))
      | _ \<Rightarrow> Inl TypeError)"

text \<open>\<^verbatim>\<open>a == b\<close> on JSON values: numbers by value, lists element by element, dictionaries
  key by key whatever their order.\<close>

fun py_eq :: "json \<Rightarrow> json \<Rightarrow> bool" where
  "py_eq (JArr xs) (JArr ys) = list_all2 py_eq xs ys"
| "py_eq (JObj d1) (JObj d2) =
     (length d1 = length d2 \<and>
      list_all (\<lambda>(k, v). case map_of d2 k of None \<Rightarrow> False | Some v' \<Rightarrow> py_eq v v') d1)"
| "py_eq JNull JNull = True"
| "py_eq (JStr s) (JStr t) = (s = t)"
| "py_eq a b = (case (num_of a, num_of b) of (Some x, Some y) \<Rightarrow> x = y | _ \<Rightarrow> False)"

text \<open>\<^verbatim>\<open>a < b\<close>: numbers by value, strings by code point, lists at the first index where
  they differ; every other pair of JSON values raises \<^verbatim>\<open>TypeError\<close>.\<close>

fun py_lt :: "json \<Rightarrow> json \<Rightarrow> py_error + bool"
  and py_lt_list :: "json list \<Rightarrow> json list \<Rightarrow> py_error + bool" where
  "py_lt (JStr s) (JStr t) = Inr (s < t)"
| "py_lt (JArr xs) (JArr ys) = py_lt_list xs ys"
| "py_lt a b = (case (num_of a, num_of b) of (Some x, Some y) \<Rightarrow> Inr (x < y) | _ \<Rightarrow> Inl TypeError)"
| "py_lt_list [] ys = Inr (ys \<noteq> [])"
| "py_lt_list (x # xs) [] = Inr False"
| "py_lt_list (x # xs) (y # ys) = (if py_eq x y then py_lt_list xs ys else py_lt x y)"

text \<open>\<^verbatim>\<open>a > b\<close> on JSON values is \<^verbatim>\<open>b < a\<close>.\<close>

definition py_gt :: "json \<Rightarrow> json \<Rightarrow> py_error + bool" where
  "py_gt a b = py_lt b a"

text \<open>\<^verbatim>\<open>a or b\<close> for an \<^verbatim>\<open>Optional[int]\<close> \<open>a\<close>: \<open>b\<close> when \<open>a\<close> is \<^verbatim>\<open>None\<close> or
  \<open>0\<close>.\<close>

definition py_or :: "int option \<Rightarrow> int \<Rightarrow> int" where
  "py_or a b = (case a of None \<Rightarrow> b | Some n \<Rightarrow> if n = 0 then b else n)"

subsection \<open>\<^verbatim>\<open>json.dumps(obj, sort_keys=True)\<close>\<close>

fun join :: "string \<Rightarrow> string list \<Rightarrow> string" where
  "join sep [] = []"
| "join sep [x] = x"
| "join sep (x # y # ys) = x @ sep @ join sep (y # ys)"

definition digit_char :: "nat \<Rightarrow> char" where
  "digit_char n = ''0123456789abcdef'' ! n"

fun show_nat :: "nat \<Rightarrow> string" where
  "show_nat n = (if n < 10 then [digit_char n] else show_nat (n div 10) @ [digit_char (n mod 10)])"

declare show_nat.simps [simp del]

definition show_int :: "int \<Rightarrow> string" where
  "show_int i = (if i < 0 then CHR ''-'' # show_nat (nat (- i)) else show_nat (nat i))"

text \<open>\<^verbatim>\<open>json.encoder.py_encode_basestring_ascii\<close>, on characters below 256.\<close>

definition escape_char :: "char \<Rightarrow> string" where
  "escape_char c =
     (let n = (of_char c :: nat) in
      if c = CHR 0x22 then [CHR 0x5C, CHR 0x22]
      else if c = CHR 0x5C then [CHR 0x5C, CHR 0x5C]
      else if c = CHR 0x0A then [CHR 0x5C, CHR ''n'']
      else if c = CHR 0x0D then [CHR 0x5C, CHR ''r'']
      else if c = CHR 0x09 then [CHR 0x5C, CHR ''t'']
      else if c = CHR 0x08 then [CHR 0x5C, CHR ''b'']
      else if c = CHR 0x0C then [CHR 0x5C, CHR ''f'']
      else if 32 \<le> n \<and> n \<le> 126 then [c]
      else [CHR 0x5C, CHR ''u'', CHR ''0'', CHR ''0'', digit_char (n div 16), digit_char (n mod 16)])"

definition encode_basestring_ascii :: "string \<Rightarrow> string" where
  "encode_basestring_ascii s = [CHR 0x22] @ concat (map escape_char s) @ [CHR 0x22]"

text \<open>Dictionary items are sorted by key at every level; the separators are the default
  \<^verbatim>\<open>', '\<close> and \<^verbatim>\<open>': '\<close>.\<close>

fun dumps :: "env \<Rightarrow> json \<Rightarrow> string" where
  "dumps E JNull = ''null''"
| "dumps E (JBool b) = (if b then ''true'' else ''false'')"
| "dumps E (JInt i) = show_int i"
| "dumps E (JFloat x) = float_repr E x"
| "dumps E (JStr s) = encode_basestring_ascii s"
| "dumps E (JArr xs) = ''['' @ join '', '' (map (dumps E) xs) @ '']''"
| "dumps E (JObj kvs) =
     ''{'' @ join '', '' (map (\<lambda>(k, v). encode_basestring_ascii k @ '': '' @ dumps E v)
                               (sort_key fst kvs)) @ ''}''"

text \<open>The dictionary display \<^verbatim>\<open>{..., **kwargs}\<close>: each item of \<open>kwargs\<close> is stored in
  turn; a key already present keeps its place and takes the new value.\<close>

definition dict_unpack :: "(string \<times> json) list \<Rightarrow> (string \<times> json) list \<Rightarrow> (string \<times> json) list" where
  "dict_unpack d kwargs = fold (\<lambda>(k, v) acc. AList.update k v acc) kwargs d"

subsection \<open>\<^verbatim>\<open>CacheEntry\<close>\<close>

text \<open>A dataclass checks no types: each field holds whatever the file gave it.\<close>

record CacheEntry =
  response :: json
  cache_key :: json
  provider :: json
  model :: json
  prompt_hash :: json
  created_at :: json
  accessed_at :: json
  access_count :: json
  ttl_seconds :: json
  request_metadata :: json

definition CacheEntry_fields :: "string list" where
  "CacheEntry_fields =
     [''response'', ''cache_key'', ''provider'', ''model'', ''prompt_hash'', ''created_at'',
      ''accessed_at'', ''access_count'', ''ttl_seconds'', ''request_metadata'']"

definition dict_get :: "(string \<times> json) list \<Rightarrow> string \<Rightarrow> json" where
  "dict_get d k = (case map_of d k of None \<Rightarrow> JNull | Some v \<Rightarrow> v)"

text \<open>\<^verbatim>\<open>time.time()\<close>: the next reading of the clock.\<close>

definition time_now :: "env \<Rightarrow> world \<Rightarrow> rat \<times> world" where
  "time_now E w = (time_time E (ticks w), w\<lparr>ticks := Suc (ticks w)\<rparr>)"

text \<open>\<^verbatim>\<open>is_expired\<close>: the clock is read only when \<^verbatim>\<open>ttl_seconds\<close> is not
  \<^verbatim>\<open>None\<close>; subtracting or comparing a value that is not a number raises
  \<^verbatim>\<open>TypeError\<close>.\<close>

definition is_expired :: "env \<Rightarrow> CacheEntry \<Rightarrow> world \<Rightarrow> (py_error + bool) \<times> world" where
  "is_expired E entry w =
     (if ttl_seconds entry = JNull then (Inr False, w)
      else
        (case time_now E w of (now, w1) \<Rightarrow>
          (case num_of (created_at entry) of
             None \<Rightarrow> (Inl TypeError, w1)
           | Some c \<Rightarrow>
               (let age_seconds = now - c in
                case num_of (ttl_seconds entry) of
                  None \<Rightarrow> (Inl TypeError, w1)
                | Some ttl \<Rightarrow> (Inr (age_seconds > ttl), w1)))))"

text \<open>\<^verbatim>\<open>update_access\<close>: \<^verbatim>\<open>accessed_at = time.time()\<close>, then
  \<^verbatim>\<open>access_count += 1\<close>.\<close>

definition update_access :: "env \<Rightarrow> CacheEntry \<Rightarrow> world \<Rightarrow> (py_error + CacheEntry) \<times> world" where
  "update_access E entry w =
     (case time_now E w of (now, w1) \<Rightarrow>
       (let entry1 = entry\<lparr>accessed_at := JFloat now\<rparr> in
        case py_add (access_count entry1) (JInt 1) of
          Inl err \<Rightarrow> (Inl err, w1)
        | Inr n \<Rightarrow> (Inr (entry1\<lparr>access_count := n\<rparr>), w1)))"

text \<open>\<^verbatim>\<open>to_dict\<close> is \<^verbatim>\<open>dataclasses.asdict\<close>: the fields in declaration order.\<close>

definition to_dict :: "CacheEntry \<Rightarrow> json" where
  "to_dict entry =
     JObj [(''response'', response entry), (''cache_key'', cache_key entry),
           (''provider'', provider entry), (''model'', model entry),
           (''prompt_hash'', prompt_hash entry), (''created_at'', created_at entry),
           (''accessed_at'', accessed_at entry), (''access_count'', access_count entry),
           (''ttl_seconds'', ttl_seconds entry), (''request_metadata'', request_metadata entry)]"

text \<open>\<^verbatim>\<open>from_dict\<close> is \<^verbatim>\<open>cls(**data)\<close>: \<^verbatim>\<open>TypeError\<close> when \<open>data\<close> is not a
  mapping, when a field has no item and when an item names no field.\<close>

definition from_dict :: "json \<Rightarrow> py_error + CacheEntry" where
  "from_dict data =
     (case data of
        JObj d \<Rightarrow>
          if set (map fst d) = set CacheEntry_fields then
            Inr \<lparr>response = dict_get d ''response'', cache_key = dict_get d ''cache_key'',
                 provider = dict_get d ''provider'', model = dict_get d ''model'',
                 prompt_hash = dict_get d ''prompt_hash'', created_at = dict_get d ''created_at'',
                 accessed_at = dict_get d ''accessed_at'',
                 access_count = dict_get d ''access_count'',
                 ttl_seconds = dict_get d ''ttl_seconds'',
                 request_metadata = dict_get d ''request_metadata''\<rparr>
          else Inl TypeError
      | _ \<Rightarrow> Inl TypeError)"

subsection \<open>\<^verbatim>\<open>LLMCache\<close>\<close>

definition DEFAULT_TTL_SECONDS :: int where
  "DEFAULT_TTL_SECONDS = 30 * 24 * 60 * 60"

text \<open>The object's own attributes; \<open>self_ttl_seconds\<close> is \<^verbatim>\<open>self.ttl_seconds\<close>. The
  responses directory is the \<open>files\<close> of the \<open>world\<close>.\<close>

record LLMCache =
  project_id :: string
  self_ttl_seconds :: int

definition LLMCache_init :: "string \<Rightarrow> int option \<Rightarrow> LLMCache" where
  "LLMCache_init pid ttl =
     \<lparr>project_id = pid, self_ttl_seconds = py_or ttl DEFAULT_TTL_SECONDS\<rparr>"

definition compute_cache_key ::
  "env \<Rightarrow> string \<Rightarrow> string \<Rightarrow> string \<Rightarrow> json \<Rightarrow> (string \<times> json) list \<Rightarrow> string" where
  "compute_cache_key E prov mdl prompt temp kwargs =
     (let params = dict_unpack [(''provider'', JStr prov), (''model'', JStr mdl),
                                (''prompt'', JStr prompt), (''temperature'', temp)] kwargs;
          params_str = dumps E (JObj params)
      in sha256_hexdigest E params_str)"

definition compute_prompt_hash :: "env \<Rightarrow> string \<Rightarrow> string" where
  "compute_prompt_hash E prompt = take 16 (sha256_hexdigest E prompt)"

definition get_cache_path :: "string \<Rightarrow> string" where
  "get_cache_path key = key @ ''.json''"

definition json_load :: "file_content \<Rightarrow> py_error + json" where
  "json_load f = (case f of Undecodable \<Rightarrow> Inl JSONDecodeError | Document v \<Rightarrow> Inr v)"

definition json_dump :: "string \<Rightarrow> json \<Rightarrow> world \<Rightarrow> world" where
  "json_dump path v w = w\<lparr>files := AList.update path (Document v) (files w)\<rparr>"

definition unlink :: "string \<Rightarrow> world \<Rightarrow> world" where
  "unlink path w = w\<lparr>files := AList.delete path (files w)\<rparr>"

text \<open>The exceptions named by \<^verbatim>\<open>except (json.JSONDecodeError, KeyError, IOError)\<close>.\<close>

fun caught :: "py_error \<Rightarrow> bool" where
  "caught JSONDecodeError = True"
| "caught KeyError = True"
| "caught IOError = True"
| "caught _ = False"

text \<open>The \<^verbatim>\<open>try\<close> block of \<^verbatim>\<open>get\<close>, on the content of the file at \<open>cache_path\<close>.\<close>

definition get_try :: "env \<Rightarrow> string \<Rightarrow> file_content \<Rightarrow> world \<Rightarrow> (py_error + json) \<times> world" where
  "get_try E cache_path f w =
     (case json_load f of
        Inl err \<Rightarrow> (Inl err, w)
      | Inr data \<Rightarrow>
          (case from_dict data of
             Inl err \<Rightarrow> (Inl err, w)
           | Inr entry \<Rightarrow>
               (case is_expired E entry w of (r, w1) \<Rightarrow>
                 (case r of
                    Inl err \<Rightarrow> (Inl err, w1)
                  | Inr expired \<Rightarrow>
                      if expired then (Inr JNull, unlink cache_path w1)
                      else
                        (case update_access E entry w1 of (r2, w2) \<Rightarrow>
                          (case r2 of
                             Inl err \<Rightarrow> (Inl err, w2)
                           | Inr entry2 \<Rightarrow>
                               (Inr (response entry2),
                                json_dump cache_path (to_dict entry2) w2)))))))"

text \<open>\<^verbatim>\<open>LLMCache.get\<close>. The result \<open>Inr JNull\<close> is Python's \<^verbatim>\<open>None\<close>; an exception
  the \<^verbatim>\<open>except\<close> clause does not name leaves \<^verbatim>\<open>get\<close> as \<open>Inl\<close>.\<close>

definition LLMCache_get ::
  "env \<Rightarrow> world \<Rightarrow> string \<Rightarrow> string \<Rightarrow> string \<Rightarrow> json \<Rightarrow> (string \<times> json) list
     \<Rightarrow> (py_error + json) \<times> world" where
  "LLMCache_get E w prov mdl prompt temp kwargs =
     (let key = compute_cache_key E prov mdl prompt temp kwargs;
          cache_path = get_cache_path key
      in case map_of (files w) cache_path of
           None \<Rightarrow> (Inr JNull, w)
         | Some f \<Rightarrow>
             (case get_try E cache_path f w of (r, w1) \<Rightarrow>
               (case r of
                  Inl err \<Rightarrow>
                    if caught err then (Inr JNull, unlink cache_path w1) else (Inl err, w1)
                | Inr v \<Rightarrow> (Inr v, w1))))"

text \<open>\<^verbatim>\<open>LLMCache.set\<close>: the clock is read once for \<^verbatim>\<open>created_at\<close> and once more for
  \<^verbatim>\<open>accessed_at\<close>.\<close>

definition LLMCache_set ::
  "env \<Rightarrow> LLMCache \<Rightarrow> world \<Rightarrow> string \<Rightarrow> string \<Rightarrow> string \<Rightarrow> json \<Rightarrow> json \<Rightarrow> int option
     \<Rightarrow> (string \<times> json) list \<Rightarrow> string \<times> world" where
  "LLMCache_set E self w prov mdl prompt resp temp ttl kwargs =
     (let key = compute_cache_key E prov mdl prompt temp kwargs;
          cache_path = get_cache_path key;
          p_hash = compute_prompt_hash E prompt
      in case time_now E w of (t1, w1) \<Rightarrow>
         (case time_now E w1 of (t2, w2) \<Rightarrow>
           (let entry = \<lparr>response = resp, cache_key = JStr key, provider = JStr prov,
                         model = JStr mdl, prompt_hash = JStr p_hash, created_at = JFloat t1,
                         accessed_at = JFloat t2, access_count = JInt 1,
                         ttl_seconds = JInt (py_or ttl (self_ttl_seconds self)),
                         request_metadata = JObj (dict_unpack [(''temperature'', temp)] kwargs)\<rparr>
            in (key, json_dump cache_path (to_dict entry) w2))))"

subsection \<open>\<^verbatim>\<open>LLMCache.get_stats\<close>\<close>

text \<open>The local variables of the loop; \<^verbatim>\<open>None\<close> is \<open>JNull\<close>.\<close>

record stats_acc =
  total_entries :: int
  expired_entries :: int
  total_size_bytes :: int
  total_accesses :: json
  oldest_entry :: json
  newest_entry :: json

text \<open>\<^verbatim>\<open>glob("*.json")\<close>: the files whose name ends in \<^verbatim>\<open>.json\<close>, in directory
  order.\<close>

definition glob_json :: "(string \<times> file_content) list \<Rightarrow> (string \<times> file_content) list" where
  "glob_json fs = filter (\<lambda>(name, f). drop (length name - 5) name = ''.json'') fs"

text \<open>What \<^verbatim>\<open>except (json.JSONDecodeError, KeyError, IOError): pass\<close> makes of an
  exception raised in the loop body: the variables keep what the body had assigned.\<close>

definition stats_except ::
  "py_error \<Rightarrow> stats_acc \<Rightarrow> world \<Rightarrow> (py_error + stats_acc) \<times> world" where
  "stats_except err a w = (if caught err then (Inr a, w) else (Inl err, w))"

text \<open>One iteration of the loop of \<^verbatim>\<open>get_stats\<close>.\<close>

definition stats_file ::
  "env \<Rightarrow> file_content \<Rightarrow> stats_acc \<Rightarrow> world \<Rightarrow> (py_error + stats_acc) \<times> world" where
  "stats_file E f a w =
     (let a1 = a\<lparr>total_size_bytes := total_size_bytes a + int (st_size E f)\<rparr> in
      case json_load f of
        Inl err \<Rightarrow> stats_except err a1 w
      | Inr data \<Rightarrow>
          (case from_dict data of
             Inl err \<Rightarrow> stats_except err a1 w
           | Inr entry \<Rightarrow>
               (let a2 = a1\<lparr>total_entries := total_entries a1 + 1\<rparr> in
                case py_add (total_accesses a2) (access_count entry) of
                  Inl err \<Rightarrow> stats_except err a2 w
                | Inr acc \<Rightarrow>
                    (let a3 = a2\<lparr>total_accesses := acc\<rparr> in
                     case is_expired E entry w of (r, w1) \<Rightarrow>
                       (case r of
                          Inl err \<Rightarrow> stats_except err a3 w1
                        | Inr expired \<Rightarrow>
                            (let a4 = (if expired
                                       then a3\<lparr>expired_entries := expired_entries a3 + 1\<rparr>
                                       else a3) in
                             case (if oldest_entry a4 = JNull then Inr True
                                   else py_lt (created_at entry) (oldest_entry a4)) of
                               Inl err \<Rightarrow> stats_except err a4 w1
                             | Inr older \<Rightarrow>
                                 (let a5 = (if older
                                            then a4\<lparr>oldest_entry := created_at entry\<rparr>
                                            else a4) in
                                  case (if newest_entry a5 = JNull then Inr True
                                        else py_gt (created_at entry) (newest_entry a5)) of
                                    Inl err \<Rightarrow> stats_except err a5 w1
                                  | Inr newer \<Rightarrow>
                                      (Inr (if newer
                                            then a5\<lparr>newest_entry := created_at entry\<rparr>
                                            else a5), w1))))))))"

fun stats_loop ::
  "env \<Rightarrow> file_content list \<Rightarrow> stats_acc \<Rightarrow> world \<Rightarrow> (py_error + stats_acc) \<times> world" where
  "stats_loop E [] a w = (Inr a, w)"
| "stats_loop E (f # fs) a w =
     (case stats_file E f a w of (r, w1) \<Rightarrow>
       (case r of Inl err \<Rightarrow> (Inl err, w1) | Inr a1 \<Rightarrow> stats_loop E fs a1 w1))"

text \<open>\<^verbatim>\<open>round((time.time() - x) / 86400, 1) if x else 0\<close>: the clock is read only when
  \<open>x\<close> is true; the subtraction, the division and the rounding are those of the
  environment.\<close>

definition age_days :: "env \<Rightarrow> json \<Rightarrow> world \<Rightarrow> (py_error + json) \<times> world" where
  "age_days E x w =
     (if truthy x then
        (case time_now E w of (now, w1) \<Rightarrow>
          (case num_of x of
             None \<Rightarrow> (Inl TypeError, w1)
           | Some c \<Rightarrow>
               (case float_sub E now c of
                  Inl err \<Rightarrow> (Inl err, w1)
                | Inr age \<Rightarrow>
                    (case true_div E age 86400 of
                       Inl err \<Rightarrow> (Inl err, w1)
                     | Inr q \<Rightarrow> (Inr (JFloat (py_round E q 1)), w1)))))
      else (Inr (JInt 0), w))"

text \<open>\<^verbatim>\<open>round(total_accesses / total_entries, 2) if total_entries > 0 else 0\<close>.\<close>

definition avg_accesses :: "env \<Rightarrow> stats_acc \<Rightarrow> py_error + json" where
  "avg_accesses E a =
     (if total_entries a > 0 then
        (case num_of (total_accesses a) of
           None \<Rightarrow> Inl TypeError
         | Some x \<Rightarrow>
             (case true_div E x (of_int (total_entries a)) of
                Inl err \<Rightarrow> Inl err
              | Inr q \<Rightarrow> Inr (JFloat (py_round E q 2))))
      else Inr (JInt 0))"

text \<open>\<^verbatim>\<open>round(total_size_bytes / (1024 * 1024), 2)\<close>.\<close>

definition size_mb :: "env \<Rightarrow> stats_acc \<Rightarrow> py_error + json" where
  "size_mb E a =
     (case true_div E (of_int (total_size_bytes a)) (1024 * 1024) of
        Inl err \<Rightarrow> Inl err
      | Inr q \<Rightarrow> Inr (JFloat (py_round E q 2)))"

text \<open>\<^verbatim>\<open>get_stats\<close>: the loop over the directory, then the dictionary, whose values are
  computed in the order written.\<close>

definition LLMCache_get_stats :: "env \<Rightarrow> world \<Rightarrow> (py_error + json) \<times> world" where
  "LLMCache_get_stats E w =
     (case stats_loop E (map snd (glob_json (files w)))
             \<lparr>total_entries = 0, expired_entries = 0, total_size_bytes = 0,
              total_accesses = JInt 0, oldest_entry = JNull, newest_entry = JNull\<rparr> w of
        (r, w1) \<Rightarrow>
          (case r of
             Inl err \<Rightarrow> (Inl err, w1)
           | Inr a \<Rightarrow>
               (case size_mb E a of
                  Inl err \<Rightarrow> (Inl err, w1)
                | Inr mb \<Rightarrow>
                 (case avg_accesses E a of
                     Inl err \<Rightarrow> (Inl err, w1)
                   | Inr avg \<Rightarrow>
                       (case age_days E (oldest_entry a) w1 of (r2, w2) \<Rightarrow>
                         (case r2 of
                            Inl err \<Rightarrow> (Inl err, w2)
                          | Inr oldest \<Rightarrow>
                              (case age_days E (newest_entry a) w2 of (r3, w3) \<Rightarrow>
                                (case r3 of
                                   Inl err \<Rightarrow> (Inl err, w3)
                                 | Inr newest \<Rightarrow>
                                     (Inr (JObj
                                        [(''total_entries'', JInt (total_entries a)),
                                         (''expired_entries'', JInt (expired_entries a)),
                                         (''active_entries'',
                                            JInt (total_entries a - expired_entries a)),
                                         (''total_size_bytes'', JInt (total_size_bytes a)),
                                         (''total_size_mb'', mb),
                                         (''total_accesses'', total_accesses a),
                                         (''avg_accesses_per_entry'', avg),
                                         (''oldest_entry_age_days'', oldest),
                                         (''newest_entry_age_days'', newest)]), w3)))))))))"

subsection \<open>\<^verbatim>\<open>CachedLLMGateway\<close>\<close>

text \<open>Modelled from the spec: \<^verbatim>\<open>PromptBundle\<close>, \<^verbatim>\<open>LLMResponse\<close>, \<^verbatim>\<open>TokenUsage\<close> and
  \<^verbatim>\<open>LLMGateway\<close> are imported by \<^verbatim>\<open>cached_gateway.py\<close> and are not among the source
  files. A request "carries an ordered list of role-tagged messages plus temperature and
  max_tokens": \<open>messages\<close> is what \<^verbatim>\<open>to_openai_format()\<close> returns. A response
  "carries content, provider, model, an optional raw-provider-payload, a latency
  measurement, and a token-usage breakdown {prompt_tokens, completion_tokens,
  total_tokens}": the arguments of \<open>LLMResponse\<close> and \<open>TokenUsage\<close> in that order. A
  gateway exposes provider, model, call and stream; a call returns a response or raises,
  a stream yields finitely many chunks and then ends or raises.\<close>

record PromptBundle =
  messages :: json
  temperature :: json
  max_tokens :: json

datatype TokenUsage = TokenUsage json json json

datatype LLMResponse = LLMResponse json json json json json TokenUsage

record LLMGateway =
  gw_provider :: string
  gw_model :: string
  gw_call :: "PromptBundle \<Rightarrow> py_error + LLMResponse"
  gw_stream :: "PromptBundle \<Rightarrow> LLMResponse list \<times> py_error option"

text \<open>Modelled from the spec: \<^verbatim>\<open>TokenUsage(**d)\<close>, with "safe defaults if absent": each
  of the three counts is taken from \<open>d\<close> or is \<open>0\<close>; \<^verbatim>\<open>TypeError\<close> when \<open>d\<close> is not a
  mapping or names anything else.\<close>

definition TokenUsage_init :: "json \<Rightarrow> py_error + TokenUsage" where
  "TokenUsage_init d =
     (case d of
        JObj kvs \<Rightarrow>
          if set (map fst kvs) \<subseteq> {''prompt_tokens'', ''completion_tokens'', ''total_tokens''}
          then Inr (TokenUsage
                 (case map_of kvs ''prompt_tokens'' of None \<Rightarrow> JInt 0 | Some v \<Rightarrow> v)
                 (case map_of kvs ''completion_tokens'' of None \<Rightarrow> JInt 0 | Some v \<Rightarrow> v)
                 (case map_of kvs ''total_tokens'' of None \<Rightarrow> JInt 0 | Some v \<Rightarrow> v))
          else Inl TypeError
      | _ \<Rightarrow> Inl TypeError)"

text \<open>The wrapper's attributes: the wrapped gateway, \<^verbatim>\<open>_enable_cache\<close> and the
  \<^verbatim>\<open>LLMCache\<close> of the project.\<close>

record CachedLLMGateway =
  gateway :: LLMGateway
  enable_cache :: bool
  cache :: LLMCache

definition prompt_bundle_to_string :: "env \<Rightarrow> PromptBundle \<Rightarrow> string" where
  "prompt_bundle_to_string E bundle =
     dumps E (JObj [(''messages'', messages bundle), (''temperature'', temperature bundle),
                    (''max_tokens'', max_tokens bundle)])"

fun llm_response_to_dict :: "LLMResponse \<Rightarrow> json" where
  "llm_response_to_dict (LLMResponse cont prov mdl raw latency (TokenUsage pt ct tt)) =
     JObj [(''content'', cont), (''provider'', prov), (''model'', mdl),
           (''raw_response'', raw), (''latency_ms'', latency),
           (''usage'', JObj [(''prompt_tokens'', pt), (''completion_tokens'', ct),
                             (''total_tokens'', tt)])]"

text \<open>\<^verbatim>\<open>_dict_to_llm_response\<close>: \<^verbatim>\<open>data.get\<close> needs a dictionary
  (\<^verbatim>\<open>AttributeError\<close>), \<^verbatim>\<open>data["content"]\<close>, \<^verbatim>\<open>data["provider"]\<close> and
  \<^verbatim>\<open>data["model"]\<close> need their key (\<^verbatim>\<open>KeyError\<close>).\<close>

definition dict_to_llm_response :: "json \<Rightarrow> py_error + LLMResponse" where
  "dict_to_llm_response data =
     (case data of
        JObj d \<Rightarrow>
          (case (if truthy (dict_get d ''usage'') then TokenUsage_init (dict_get d ''usage'')
                 else Inr (TokenUsage (JInt 0) (JInt 0) (JInt 0))) of
             Inl err \<Rightarrow> Inl err
           | Inr usage \<Rightarrow>
               (case (map_of d ''content'', map_of d ''provider'', map_of d ''model'') of
                  (Some cont, Some prov, Some mdl) \<Rightarrow>
                    Inr (LLMResponse cont prov mdl (dict_get d ''raw_response'')
                           (case map_of d ''latency_ms'' of None \<Rightarrow> JInt 0 | Some v \<Rightarrow> v)
                           usage)
                | _ \<Rightarrow> Inl KeyError))
      | _ \<Rightarrow> Inl AttributeError)"

text \<open>\<^verbatim>\<open>CachedLLMGateway.call\<close>.\<close>

definition CachedLLMGateway_call ::
  "env \<Rightarrow> CachedLLMGateway \<Rightarrow> world \<Rightarrow> PromptBundle \<Rightarrow> (py_error + LLMResponse) \<times> world" where
  "CachedLLMGateway_call E self w bundle =
     (if \<not> enable_cache self then (gw_call (gateway self) bundle, w)
      else
        (let prompt_str = prompt_bundle_to_string E bundle;
             kwargs = [(''max_tokens'', max_tokens bundle)]
         in case LLMCache_get E w (gw_provider (gateway self)) (gw_model (gateway self))
                   prompt_str (temperature bundle) kwargs of
              (r, w1) \<Rightarrow>
                (case r of
                   Inl err \<Rightarrow> (Inl err, w1)
                 | Inr cached_response \<Rightarrow>
                     if truthy cached_response
                     then (dict_to_llm_response cached_response, w1)
                     else
                       (case gw_call (gateway self) bundle of
                          Inl err \<Rightarrow> (Inl err, w1)
                        | Inr resp \<Rightarrow>
                            (case LLMCache_set E (cache self) w1 (gw_provider (gateway self))
                                    (gw_model (gateway self)) prompt_str
                                    (llm_response_to_dict resp) (temperature bundle) None kwargs of
                               (key, w2) \<Rightarrow> (Inr resp, w2))))))"

text \<open>\<^verbatim>\<open>CachedLLMGateway.stream\<close>: every chunk of the wrapped stream is yielded in turn.\<close>

fun yield_each :: "LLMResponse list \<Rightarrow> LLMResponse list" where
  "yield_each [] = []"
| "yield_each (chunk # chunks) = chunk # yield_each chunks"

definition CachedLLMGateway_stream ::
  "CachedLLMGateway \<Rightarrow> world \<Rightarrow> PromptBundle \<Rightarrow> (LLMResponse list \<times> py_error option) \<times> world" where
  "CachedLLMGateway_stream self w bundle =
     (case gw_stream (gateway self) bundle of
        (chunks, err) \<Rightarrow> ((yield_each chunks, err), w))"

subsection \<open>Observing the directory\<close>

text \<open>The entry a file of the directory holds, when \<^verbatim>\<open>json.load\<close> and
  \<^verbatim>\<open>CacheEntry.from_dict\<close> accept it.\<close>

definition persisted_entry :: "world \<Rightarrow> string \<Rightarrow> CacheEntry option" where
  "persisted_entry w path =
     (case map_of (files w) path of
        None \<Rightarrow> None
      | Some f \<Rightarrow>
          (case json_load f of
             Inl err \<Rightarrow> None
           | Inr data \<Rightarrow> (case from_dict data of Inl err \<Rightarrow> None | Inr entry \<Rightarrow> Some entry)))"

subsection \<open>A concrete run\<close>

text \<open>An environment to evaluate the definitions in: the digest of a string is the
  string itself (no two requests collide), every float prints as \<^verbatim>\<open>0.7\<close>, the clock
  advances by one second from one reading to the next, every file has 120 bytes, no
  subtraction or division overflows and rounding is to the nearest multiple, halves
  upwards.\<close>

definition demo_env :: env where
  "demo_env = \<lparr>sha256_hexdigest = (\<lambda>s. s), float_repr = (\<lambda>x. ''0.7''),
                time_time = (\<lambda>n. of_nat n), st_size = (\<lambda>f. 120),
                float_sub = (\<lambda>a b. Inr (a - b)), true_div = (\<lambda>a b. Inr (a / b)),
                py_round = (\<lambda>x n. of_int \<lfloor>x * 10 ^ n + 1 / 2\<rfloor> / 10 ^ n)\<rparr>"

definition demo_cache :: LLMCache where
  "demo_cache = LLMCache_init ''7e3b9804'' None"

definition empty_world :: world where
  "empty_world = \<lparr>files = [], ticks = 0\<rparr>"

definition demo_response :: json where
  "demo_response = JObj [(''content'', JStr ''Hello World (translated)'')]"

definition demo_bundle :: PromptBundle where
  "demo_bundle = \<lparr>messages = JArr [JObj [(''role'', JStr ''user''), (''content'', JStr ''Hello'')]],
                   temperature = JFloat (7 / 10), max_tokens = JInt 256\<rparr>"

definition demo_chunk :: LLMResponse where
  "demo_chunk = LLMResponse (JStr ''Bonjour'') (JStr ''openai'') (JStr ''gpt-4o'') JNull (JInt 850)
                  (TokenUsage (JInt 10) (JInt 5) (JInt 15))"

text \<open>A gateway that answers, and one whose every call raises.\<close>

definition demo_gateway :: LLMGateway where
  "demo_gateway = \<lparr>gw_provider = ''openai'', gw_model = ''gpt-4o'',
                    gw_call = (\<lambda>b. Inr demo_chunk),
                    gw_stream = (\<lambda>b. ([demo_chunk, demo_chunk], None))\<rparr>"

definition failing_gateway :: LLMGateway where
  "failing_gateway = \<lparr>gw_provider = ''openai'', gw_model = ''gpt-4o'',
                       gw_call = (\<lambda>b. Inl (GatewayError ''503'')),
                       gw_stream = (\<lambda>b. ([], Some (GatewayError ''503'')))\<rparr>"

text \<open>The key of the request the run stores, the directory after \<^verbatim>\<open>set\<close> has stored
  it in the empty directory with a given time-to-live, and the same for the request the
  gateway wrapper makes of \<open>demo_bundle\<close>.\<close>

definition demo_key :: string where
  "demo_key = compute_cache_key demo_env ''openai'' ''gpt-4o'' ''Hello'' (JFloat (7 / 10)) []"

definition stored_world :: "int option \<Rightarrow> world" where
  "stored_world ttl =
     snd (LLMCache_set demo_env demo_cache empty_world ''openai'' ''gpt-4o'' ''Hello''
            demo_response (JFloat (7 / 10)) ttl [])"

definition demo_self :: "LLMGateway \<Rightarrow> CachedLLMGateway" where
  "demo_self g = \<lparr>gateway = g, enable_cache = True, cache = demo_cache\<rparr>"

definition bundle_world :: "json \<Rightarrow> int option \<Rightarrow> world" where
  "bundle_world resp ttl =
     snd (LLMCache_set demo_env demo_cache empty_world ''openai'' ''gpt-4o''
            (prompt_bundle_to_string demo_env demo_bundle) resp (temperature demo_bundle) ttl
            [(''max_tokens'', max_tokens demo_bundle)])"

section \<open>Key derivation\<close>

lemma map_of_dict_unpack:
  "map_of (dict_unpack d kw) = map_of d ++ map_of (rev kw)"
  unfolding dict_unpack_def
proof (induction kw arbitrary: d)
  case Nil
  then show ?case by simp
next
  case (Cons p kw)
  obtain k v where p: "p = (k, v)" by (cases p)
  have "map_of (fold (\<lambda>(k, v). AList.update k v) kw (AList.update k v d))
        = map_of (AList.update k v d) ++ map_of (rev kw)"
    by (rule Cons.IH)
  also have "\<dots> = map_of d ++ map_of (rev kw @ [(k, v)])"
    by (simp add: update_conv' fun_eq_iff map_add_def split: option.splits)
  finally show ?case by (simp add: p)
qed

lemma distinct_dict_unpack:
  "distinct (map fst d) \<Longrightarrow> distinct (map fst (dict_unpack d kw))"
  unfolding dict_unpack_def
  by (induction kw arbitrary: d) (auto simp: distinct_update)

lemma map_of_rev_distinct:
  assumes "distinct (map fst xs)" "distinct (map fst ys)" "set xs = set ys"
  shows "map_of (rev xs) = map_of (rev ys)"
proof -
  have "distinct (map fst (rev xs))" "distinct (map fst (rev ys))"
    using assms by (simp_all add: rev_map[symmetric])
  moreover have "set (rev xs) = set (rev ys)" using assms by simp
  ultimately show ?thesis by (simp add: map_of_inject_set)
qed

text \<open>Sorting the items of a dictionary by key forgets the order they were inserted in.\<close>

lemma sort_key_fst_unique:
  assumes "distinct (map fst xs)" "distinct (map fst ys)" "map_of xs = map_of ys"
  shows "sort_key fst xs = sort_key fst (ys :: (string \<times> 'v) list)"
proof -
  have s: "set xs = set ys" using assms by (simp add: map_of_inject_set)
  have inj: "inj_on fst (set xs)" using assms(1) by (simp add: distinct_map)
  show ?thesis
  proof (rule map_sorted_distinct_set_unique[where f = fst])
    show "inj_on fst (set (sort_key fst xs) \<union> set (sort_key fst ys))" using inj s by simp
    show "sorted (map fst (sort_key fst xs))" by simp
    show "distinct (map fst (sort_key fst xs))" using assms(1) by (simp add: distinct_map)
    show "sorted (map fst (sort_key fst ys))" by simp
    show "distinct (map fst (sort_key fst ys))" using assms(2) by (simp add: distinct_map)
    show "set (sort_key fst xs) = set (sort_key fst ys)" using s by simp
  qed
qed

lemma dict_unpack_sorted_eq:
  assumes "distinct (map fst d)" "distinct (map fst kw1)" "distinct (map fst kw2)"
    "set kw1 = set kw2"
  shows "sort_key fst (dict_unpack d kw1) = sort_key fst (dict_unpack d kw2)"
  by (rule sort_key_fst_unique)
     (simp_all add: distinct_dict_unpack assms map_of_dict_unpack
        map_of_rev_distinct[OF assms(2,3,4)])

text \<open>
  \<^bold>\<open>C1.\<close> The cache key does not depend on the order in which the extra parameters were
  passed: two keyword dictionaries with the same items (keyword names are distinct, as in
  every Python call) give the same key, whatever the provider, model, prompt and
  temperature, and whatever the digest and the printing of floats are. Being a function of
  its arguments, \<open>compute_cache_key\<close> returns equal keys on equal arguments.
\<close>

theorem compute_cache_key_order_insensitive:
  assumes "distinct (map fst kw1)" and "distinct (map fst kw2)" and "set kw1 = set kw2"
  shows "compute_cache_key E prov mdl prompt temp kw1 =
         compute_cache_key E prov mdl prompt temp kw2"
proof -
  let ?base = "[(''provider'', JStr prov), (''model'', JStr mdl), (''prompt'', JStr prompt),
                (''temperature'', temp)]"
  have "distinct (map fst ?base)" by simp
  then have "sort_key fst (dict_unpack ?base kw1) = sort_key fst (dict_unpack ?base kw2)"
    using assms by (rule dict_unpack_sorted_eq)
  then show ?thesis by (simp add: compute_cache_key_def Let_def)
qed

theorem compute_cache_key_order_insensitive_witness:
  "distinct (map fst [(''max_tokens'', JInt 256), (''seed'', JInt 7)]) \<and>
   distinct (map fst [(''seed'', JInt 7), (''max_tokens'', JInt 256)]) \<and>
   set [(''max_tokens'', JInt 256), (''seed'', JInt 7)] =
     set [(''seed'', JInt 7), (''max_tokens'', JInt 256)] \<and>
   compute_cache_key demo_env ''openai'' ''gpt-4o'' ''Hello'' (JFloat (7 / 10))
       [(''max_tokens'', JInt 256), (''seed'', JInt 7)] =
     compute_cache_key demo_env ''openai'' ''gpt-4o'' ''Hello'' (JFloat (7 / 10))
       [(''seed'', JInt 7), (''max_tokens'', JInt 256)]"
proof -
  have d1: "distinct (map fst [(''max_tokens'', JInt 256), (''seed'', JInt 7)])" by simp
  have d2: "distinct (map fst [(''seed'', JInt 7), (''max_tokens'', JInt 256)])" by simp
  have s: "set [(''max_tokens'', JInt 256), (''seed'', JInt 7)] =
           set [(''seed'', JInt 7), (''max_tokens'', JInt 256)]" by auto
  show ?thesis
    using d1 d2 s compute_cache_key_order_insensitive [OF d1 d2 s] by blast
qed

section \<open>Reading and writing entries\<close>

lemma from_dict_to_dict: "from_dict (to_dict entry) = Inr entry"
  by (simp add: from_dict_def to_dict_def CacheEntry_fields_def dict_get_def)

lemma map_of_json_dump:
  "map_of (files (json_dump path v w)) = (map_of (files w))(path \<mapsto> Document v)"
  by (simp add: json_dump_def update_conv')

lemma map_of_unlink:
  "map_of (files (unlink path w)) = (map_of (files w))(path := None)"
  by (simp add: unlink_def delete_conv')

lemma ticks_json_dump: "ticks (json_dump path v w) = ticks w"
  by (simp add: json_dump_def)

lemma ticks_unlink: "ticks (unlink path w) = ticks w"
  by (simp add: unlink_def)

lemma LLMCache_set_eq:
  "LLMCache_set E self w prov mdl prompt resp temp ttl kwargs =
     (compute_cache_key E prov mdl prompt temp kwargs,
      json_dump (get_cache_path (compute_cache_key E prov mdl prompt temp kwargs))
        (to_dict \<lparr>response = resp,
                  cache_key = JStr (compute_cache_key E prov mdl prompt temp kwargs),
                  provider = JStr prov, model = JStr mdl,
                  prompt_hash = JStr (compute_prompt_hash E prompt),
                  created_at = JFloat (time_time E (ticks w)),
                  accessed_at = JFloat (time_time E (Suc (ticks w))),
                  access_count = JInt 1,
                  ttl_seconds = JInt (py_or ttl (self_ttl_seconds self)),
                  request_metadata = JObj (dict_unpack [(''temperature'', temp)] kwargs)\<rparr>)
        (w\<lparr>ticks := Suc (Suc (ticks w))\<rparr>))"
  by (simp add: LLMCache_set_def time_now_def Let_def)

lemma get_absent:
  assumes "map_of (files w) (get_cache_path (compute_cache_key E prov mdl prompt temp kwargs)) = None"
  shows "LLMCache_get E w prov mdl prompt temp kwargs = (Inr JNull, w)"
  using assms by (simp add: LLMCache_get_def Let_def)

lemma get_undecodable:
  assumes "map_of (files w) (get_cache_path (compute_cache_key E prov mdl prompt temp kwargs)) = Some Undecodable"
  shows "LLMCache_get E w prov mdl prompt temp kwargs =
           (Inr JNull, unlink (get_cache_path (compute_cache_key E prov mdl prompt temp kwargs)) w)"
  using assms by (simp add: LLMCache_get_def Let_def get_try_def json_load_def)

lemma get_bad_shape:
  assumes "map_of (files w) (get_cache_path (compute_cache_key E prov mdl prompt temp kwargs)) = Some (Document data)"
    and "from_dict data = Inl err"
  shows "LLMCache_get E w prov mdl prompt temp kwargs = (Inl TypeError, w)"
  using assms by (auto simp add: LLMCache_get_def Let_def get_try_def json_load_def from_dict_def split: json.splits if_splits)

lemma get_expired:
  assumes "map_of (files w) (get_cache_path (compute_cache_key E prov mdl prompt temp kwargs)) = Some (Document data)"
    and "from_dict data = Inr entry"
    and "num_of (created_at entry) = Some c"
    and "num_of (ttl_seconds entry) = Some ttl"
    and "time_time E (ticks w) - c > ttl"
  shows "LLMCache_get E w prov mdl prompt temp kwargs =
           (Inr JNull, unlink (get_cache_path (compute_cache_key E prov mdl prompt temp kwargs))
                         (w\<lparr>ticks := Suc (ticks w)\<rparr>))"
proof -
  have "ttl_seconds entry \<noteq> JNull" using assms(4) by auto
  then have "is_expired E entry w = (Inr True, w\<lparr>ticks := Suc (ticks w)\<rparr>)"
    using assms(3,4,5) by (simp add: is_expired_def time_now_def)
  then show ?thesis
    using assms(1,2) by (simp add: LLMCache_get_def Let_def get_try_def json_load_def)
qed

lemma get_hit_ttl:
  assumes "map_of (files w) (get_cache_path (compute_cache_key E prov mdl prompt temp kwargs)) = Some (Document data)"
    and "from_dict data = Inr entry"
    and "num_of (created_at entry) = Some c"
    and "num_of (ttl_seconds entry) = Some ttl"
    and "\<not> time_time E (ticks w) - c > ttl"
    and "py_add (access_count entry) (JInt 1) = Inr n"
  shows "LLMCache_get E w prov mdl prompt temp kwargs =
           (Inr (response entry),
            json_dump (get_cache_path (compute_cache_key E prov mdl prompt temp kwargs))
              (to_dict (entry\<lparr>accessed_at := JFloat (time_time E (Suc (ticks w))), access_count := n\<rparr>))
              (w\<lparr>ticks := Suc (Suc (ticks w))\<rparr>))"
proof -
  have "ttl_seconds entry \<noteq> JNull" using assms(4) by auto
  then have "is_expired E entry w = (Inr False, w\<lparr>ticks := Suc (ticks w)\<rparr>)"
    using assms(3,4,5) by (simp add: is_expired_def time_now_def)
  then show ?thesis
    using assms(1,2,6) by (simp add: LLMCache_get_def Let_def get_try_def json_load_def update_access_def time_now_def)
qed

lemma get_hit_no_ttl:
  assumes "map_of (files w) (get_cache_path (compute_cache_key E prov mdl prompt temp kwargs)) = Some (Document data)"
    and "from_dict data = Inr entry"
    and "ttl_seconds entry = JNull"
    and "py_add (access_count entry) (JInt 1) = Inr n"
  shows "LLMCache_get E w prov mdl prompt temp kwargs =
           (Inr (response entry),
            json_dump (get_cache_path (compute_cache_key E prov mdl prompt temp kwargs))
              (to_dict (entry\<lparr>accessed_at := JFloat (time_time E (ticks w)), access_count := n\<rparr>))
              (w\<lparr>ticks := Suc (ticks w)\<rparr>))"
proof -
  have "is_expired E entry w = (Inr False, w)"
    using assms(3) by (simp add: is_expired_def)
  then show ?thesis
    using assms(1,2,4) by (simp add: LLMCache_get_def Let_def get_try_def json_load_def update_access_def time_now_def)
qed

text \<open>
  \<^bold>\<open>C2.\<close> Round trip: whatever the directory held before, after \<^verbatim>\<open>set\<close> has stored a
  response, a \<^verbatim>\<open>get\<close> with the same provider, model, prompt, temperature and extra
  parameters returns that response, provided the clock reading \<^verbatim>\<open>get\<close> takes for its
  expiry test (the third reading since \<^verbatim>\<open>set\<close> began) is not more than the entry's
  time-to-live past the reading stored as \<^verbatim>\<open>created_at\<close>. With a clock that does not
  run backwards this needs a time-to-live that is not negative.
\<close>

theorem set_then_get_round_trip:
  assumes "LLMCache_set E self w prov mdl prompt resp temp ttl kwargs = (key, w1)"
    and "time_time E (ticks w + 2) - time_time E (ticks w)
           \<le> of_int (py_or ttl (self_ttl_seconds self))"
  shows "fst (LLMCache_get E w1 prov mdl prompt temp kwargs) = Inr resp"
proof -
  let ?key = "compute_cache_key E prov mdl prompt temp kwargs"
  let ?entry = "\<lparr>response = resp, cache_key = JStr ?key, provider = JStr prov, model = JStr mdl,
                 prompt_hash = JStr (compute_prompt_hash E prompt),
                 created_at = JFloat (time_time E (ticks w)),
                 accessed_at = JFloat (time_time E (Suc (ticks w))),
                 access_count = JInt 1,
                 ttl_seconds = JInt (py_or ttl (self_ttl_seconds self)),
                 request_metadata = JObj (dict_unpack [(''temperature'', temp)] kwargs)\<rparr>"
  have w1: "w1 = json_dump (get_cache_path ?key) (to_dict ?entry) (w\<lparr>ticks := Suc (Suc (ticks w))\<rparr>)"
    using assms(1) by (auto simp add: LLMCache_set_eq)
  have inplace: "map_of (files w1) (get_cache_path ?key) = Some (Document (to_dict ?entry))"
    by (simp add: w1 map_of_json_dump)
  have fresh: "\<not> time_time E (ticks w1) - time_time E (ticks w)
                  > of_int (py_or ttl (self_ttl_seconds self))"
    using assms(2) by (simp add: w1 ticks_json_dump)
  have "LLMCache_get E w1 prov mdl prompt temp kwargs =
          (Inr (response ?entry),
           json_dump (get_cache_path ?key)
             (to_dict (?entry\<lparr>accessed_at := JFloat (time_time E (Suc (ticks w1))),
                                access_count := JInt 2\<rparr>))
             (w1\<lparr>ticks := Suc (Suc (ticks w1))\<rparr>))"
    by (rule get_hit_ttl[OF inplace from_dict_to_dict _ _ fresh]) (simp_all add: py_add_def)
  then show ?thesis by simp
qed

theorem set_then_get_round_trip_witness:
  "time_time demo_env (ticks empty_world + 2) - time_time demo_env (ticks empty_world)
     \<le> of_int (py_or None (self_ttl_seconds demo_cache)) \<and>
   fst (LLMCache_get demo_env
         (snd (LLMCache_set demo_env demo_cache empty_world ''openai'' ''gpt-4o'' ''Hello''
                 demo_response (JFloat (7 / 10)) None [(''max_tokens'', JInt 256)]))
         ''openai'' ''gpt-4o'' ''Hello'' (JFloat (7 / 10)) [(''max_tokens'', JInt 256)])
   = Inr demo_response"
proof -
  have fresh: "time_time demo_env (ticks empty_world + 2) - time_time demo_env (ticks empty_world)
           \<le> of_int (py_or None (self_ttl_seconds demo_cache))"
    by (simp add: demo_env_def empty_world_def demo_cache_def LLMCache_init_def py_or_def
          DEFAULT_TTL_SECONDS_def)
  show ?thesis
    using fresh set_then_get_round_trip [OF surjective_pairing fresh] by blast
qed

section \<open>Persisted entries, hits and the frame of \<^verbatim>\<open>get\<close>\<close>

lemma persisted_entry_iff:
  "persisted_entry w path = Some entry \<longleftrightarrow>
     (\<exists>data. map_of (files w) path = Some (Document data) \<and> from_dict data = Inr entry)"
  by (auto simp add: persisted_entry_def json_load_def split: option.splits file_content.splits sum.splits)

lemma persisted_entry_json_dump:
  "persisted_entry (json_dump path (to_dict entry) w) path = Some entry"
  by (simp add: persisted_entry_iff map_of_json_dump from_dict_to_dict)

lemma persisted_entry_set:
  "persisted_entry (snd (LLMCache_set E self w prov mdl prompt resp temp ttl kwargs))
       (get_cache_path (compute_cache_key E prov mdl prompt temp kwargs)) =
     Some \<lparr>response = resp,
           cache_key = JStr (compute_cache_key E prov mdl prompt temp kwargs),
           provider = JStr prov, model = JStr mdl,
           prompt_hash = JStr (compute_prompt_hash E prompt),
           created_at = JFloat (time_time E (ticks w)),
           accessed_at = JFloat (time_time E (Suc (ticks w))),
           access_count = JInt 1,
           ttl_seconds = JInt (py_or ttl (self_ttl_seconds self)),
           request_metadata = JObj (dict_unpack [(''temperature'', temp)] kwargs)\<rparr>"
  by (simp add: LLMCache_set_eq persisted_entry_json_dump)

lemma get_hit:
  assumes "persisted_entry w (get_cache_path (compute_cache_key E prov mdl prompt temp kwargs)) = Some entry"
    and "is_expired E entry w = (Inr False, w1)"
    and "py_add (access_count entry) (JInt 1) = Inr n"
  shows "LLMCache_get E w prov mdl prompt temp kwargs =
           (Inr (response entry),
            json_dump (get_cache_path (compute_cache_key E prov mdl prompt temp kwargs))
              (to_dict (entry\<lparr>accessed_at := JFloat (time_time E (ticks w1)), access_count := n\<rparr>))
              (w1\<lparr>ticks := Suc (ticks w1)\<rparr>))"
proof -
  obtain data where
    "map_of (files w) (get_cache_path (compute_cache_key E prov mdl prompt temp kwargs)) = Some (Document data)"
    "from_dict data = Inr entry"
    using assms(1) by (auto simp add: persisted_entry_iff)
  then show ?thesis
    using assms(2,3)
    by (simp add: LLMCache_get_def Let_def get_try_def json_load_def update_access_def time_now_def)
qed

lemma get_expired_gen:
  assumes "persisted_entry w (get_cache_path (compute_cache_key E prov mdl prompt temp kwargs)) = Some entry"
    and "is_expired E entry w = (Inr True, w1)"
  shows "LLMCache_get E w prov mdl prompt temp kwargs =
           (Inr JNull, unlink (get_cache_path (compute_cache_key E prov mdl prompt temp kwargs)) w1)"
proof -
  obtain data where
    "map_of (files w) (get_cache_path (compute_cache_key E prov mdl prompt temp kwargs)) = Some (Document data)"
    "from_dict data = Inr entry"
    using assms(1) by (auto simp add: persisted_entry_iff)
  then show ?thesis
    using assms(2)
    by (simp add: LLMCache_get_def Let_def get_try_def json_load_def)
qed

lemma is_expired_no_ttl: "ttl_seconds entry = JNull \<Longrightarrow> is_expired E entry w = (Inr False, w)"
  by (simp add: is_expired_def)

lemma is_expired_ttl:
  assumes "num_of (created_at entry) = Some c" "num_of (ttl_seconds entry) = Some ttl"
  shows "is_expired E entry w = (Inr (time_time E (ticks w) - c > ttl), w\<lparr>ticks := Suc (ticks w)\<rparr>)"
proof -
  have "ttl_seconds entry \<noteq> JNull" using assms(2) by auto
  then show ?thesis using assms by (simp add: is_expired_def time_now_def)
qed

lemma py_add_one:
  "num_of a = Some k \<Longrightarrow> \<exists>n. py_add a (JInt 1) = Inr n"
  by (simp add: py_add_def)

lemma ticks_stored_world: "ticks (stored_world ttl) = 2"
  by (simp add: stored_world_def LLMCache_set_eq ticks_json_dump empty_world_def)

lemma persisted_stored_world:
  "persisted_entry (stored_world ttl) (get_cache_path demo_key) =
     Some \<lparr>response = demo_response, cache_key = JStr demo_key,
           provider = JStr ''openai'', model = JStr ''gpt-4o'',
           prompt_hash = JStr (compute_prompt_hash demo_env ''Hello''),
           created_at = JFloat 0, accessed_at = JFloat 1, access_count = JInt 1,
           ttl_seconds = JInt (py_or ttl 2592000),
           request_metadata = JObj [(''temperature'', JFloat (7 / 10))]\<rparr>"
  unfolding stored_world_def demo_key_def
  by (simp add: persisted_entry_set)
     (simp add: demo_env_def empty_world_def demo_cache_def LLMCache_init_def py_or_def
        DEFAULT_TTL_SECONDS_def dict_unpack_def)

lemma hit_step:
  assumes "persisted_entry w (get_cache_path (compute_cache_key E prov mdl prompt temp kwargs)) = Some entry"
    and "created_at entry = JFloat c"
    and "ttl_seconds entry = JInt ttl"
    and "access_count entry = JInt n"
    and "time_time E (ticks w) - c \<le> of_int ttl"
  shows "fst (LLMCache_get E w prov mdl prompt temp kwargs) = Inr (response entry) \<and>
         persisted_entry (snd (LLMCache_get E w prov mdl prompt temp kwargs))
             (get_cache_path (compute_cache_key E prov mdl prompt temp kwargs)) =
           Some (entry\<lparr>accessed_at := JFloat (time_time E (ticks w + 1)),
                       access_count := JInt (n + 1)\<rparr>) \<and>
         ticks (snd (LLMCache_get E w prov mdl prompt temp kwargs)) = ticks w + 2"
proof -
  have ex: "is_expired E entry w = (Inr False, w\<lparr>ticks := Suc (ticks w)\<rparr>)"
    using assms(2,3,5) by (simp add: is_expired_ttl[where c = c and ttl = "of_int ttl"])
  have add: "py_add (access_count entry) (JInt 1) = Inr (JInt (n + 1))"
    using assms(4) by (simp add: py_add_def)
  show ?thesis
    by (simp add: get_hit[OF assms(1) ex add] persisted_entry_json_dump ticks_json_dump)
qed

lemma files_is_expired: "files (snd (is_expired E entry w)) = files w"
  by (simp add: is_expired_def time_now_def Let_def split: option.splits)

lemma files_update_access: "files (snd (update_access E entry w)) = files w"
  by (simp add: update_access_def time_now_def Let_def split: sum.splits)

lemma get_try_frame:
  assumes "path \<noteq> p"
  shows "map_of (files (snd (get_try E p f w))) path = map_of (files w) path"
proof (cases "json_load f")
  case (Inl err)
  then show ?thesis by (simp add: get_try_def)
next
  case (Inr data)
  show ?thesis
  proof (cases "from_dict data")
    case (Inl err)
    then show ?thesis using Inr by (simp add: get_try_def)
  next
    case entry: (Inr entry)
    obtain r w1 where ex: "is_expired E entry w = (r, w1)" by force
    have f1: "files w1 = files w" using files_is_expired[of E entry w] ex by simp
    show ?thesis
    proof (cases r)
      case (Inl err)
      then show ?thesis using Inr entry ex f1 by (simp add: get_try_def)
    next
      case expired: (Inr expired)
      show ?thesis
      proof (cases expired)
        case True
        then show ?thesis
          using Inr entry ex f1 expired assms by (simp add: get_try_def map_of_unlink)
      next
        case False
        obtain r2 w2 where up: "update_access E entry w1 = (r2, w2)" by force
        have f2: "files w2 = files w1" using files_update_access[of E entry w1] up by simp
        show ?thesis
          using Inr entry ex f1 expired False up f2 assms
          by (cases r2) (simp_all add: get_try_def map_of_json_dump)
      qed
    qed
  qed
qed

lemma get_frame:
  assumes "path \<noteq> get_cache_path (compute_cache_key E prov mdl prompt temp kwargs)"
  shows "map_of (files (snd (LLMCache_get E w prov mdl prompt temp kwargs))) path
         = map_of (files w) path"
proof (cases "map_of (files w) (get_cache_path (compute_cache_key E prov mdl prompt temp kwargs))")
  case None
  then show ?thesis by (simp add: get_absent)
next
  case (Some f)
  let ?p = "get_cache_path (compute_cache_key E prov mdl prompt temp kwargs)"
  obtain r w1 where t: "get_try E ?p f w = (r, w1)" by force
  have fr: "map_of (files w1) path = map_of (files w) path"
    using get_try_frame[OF assms, of E f w] t by simp
  show ?thesis
    using Some t fr assms
    by (cases r) (simp_all add: LLMCache_get_def Let_def map_of_unlink)
qed

lemma get_Inr_cases:
  assumes "LLMCache_get E w prov mdl prompt temp kwargs = (Inr v, w1)"
  shows "(map_of (files w) (get_cache_path (compute_cache_key E prov mdl prompt temp kwargs)) = None
            \<and> v = JNull \<and> w1 = w) \<or>
         (map_of (files w) (get_cache_path (compute_cache_key E prov mdl prompt temp kwargs))
            = Some Undecodable
            \<and> v = JNull
            \<and> w1 = unlink (get_cache_path (compute_cache_key E prov mdl prompt temp kwargs)) w) \<or>
         (\<exists>entry w'.
            persisted_entry w (get_cache_path (compute_cache_key E prov mdl prompt temp kwargs))
              = Some entry
            \<and> is_expired E entry w = (Inr True, w') \<and> v = JNull
            \<and> w1 = unlink (get_cache_path (compute_cache_key E prov mdl prompt temp kwargs)) w') \<or>
         (\<exists>entry w' n.
            persisted_entry w (get_cache_path (compute_cache_key E prov mdl prompt temp kwargs))
              = Some entry
            \<and> is_expired E entry w = (Inr False, w')
            \<and> py_add (access_count entry) (JInt 1) = Inr n
            \<and> v = response entry
            \<and> w1 = json_dump (get_cache_path (compute_cache_key E prov mdl prompt temp kwargs))
                     (to_dict (entry\<lparr>accessed_at := JFloat (time_time E (ticks w')),
                                       access_count := n\<rparr>))
                     (w'\<lparr>ticks := Suc (ticks w')\<rparr>))"
proof -
  let ?p = "get_cache_path (compute_cache_key E prov mdl prompt temp kwargs)"
  show ?thesis
  proof (cases "map_of (files w) ?p")
    case None
    then show ?thesis using assms by (simp add: get_absent)
  next
    case (Some f)
    show ?thesis
    proof (cases f)
      case Undecodable
      then show ?thesis using assms Some by (simp add: get_undecodable)
    next
      case (Document data)
      show ?thesis
      proof (cases "from_dict data")
        case (Inl err)
        then show ?thesis
          using assms get_bad_shape[of w E prov mdl prompt temp kwargs data err] Some Document
          by simp
      next
        case (Inr entry)
        have pe: "persisted_entry w ?p = Some entry"
          using Some Document Inr by (simp add: persisted_entry_iff)
        obtain r w' where ex: "is_expired E entry w = (r, w')" by force
        show ?thesis
        proof (cases r)
          case (Inl err)
          have "err = TypeError"
            using ex Inl by (auto simp add: is_expired_def time_now_def Let_def
                              split: if_splits option.splits)
          then show ?thesis
            using assms Some Document Inr ex Inl
            by (simp add: LLMCache_get_def Let_def get_try_def json_load_def)
        next
          case expired: (Inr expired)
          show ?thesis
          proof (cases expired)
            case True
            then have "LLMCache_get E w prov mdl prompt temp kwargs = (Inr JNull, unlink ?p w')"
              using get_expired_gen[OF pe] ex expired by simp
            then show ?thesis using assms pe ex expired True by auto
          next
            case False
            show ?thesis
            proof (cases "py_add (access_count entry) (JInt 1)")
              case (Inl err)
              then have "err = TypeError"
                by (auto simp add: py_add_def split: option.splits)
              then show ?thesis
                using assms Some Document Inr ex expired False Inl
                by (simp add: LLMCache_get_def Let_def get_try_def json_load_def
                      update_access_def time_now_def)
            next
              case n: (Inr n)
              have "LLMCache_get E w prov mdl prompt temp kwargs =
                      (Inr (response entry),
                       json_dump ?p
                         (to_dict (entry\<lparr>accessed_at := JFloat (time_time E (ticks w')),
                                           access_count := n\<rparr>))
                         (w'\<lparr>ticks := Suc (ticks w')\<rparr>))"
                using get_hit[OF pe _ n] ex expired False by simp
              then show ?thesis using assms pe ex expired False n by auto
            qed
          qed
        qed
      qed
    qed
  qed
qed

lemma files_unlink: "files (unlink path w) = AList.delete path (files w)"
  by (simp add: unlink_def)

lemma files_json_dump: "files (json_dump path v w) = AList.update path (Document v) (files w)"
  by (simp add: json_dump_def)

lemma files_is_expired_eq:
  "is_expired E entry w = (r, w') \<Longrightarrow> files w' = files w"
  using files_is_expired[of E entry w] by simp

lemma dict_to_llm_response_inverse:
  "dict_to_llm_response (llm_response_to_dict resp) = Inr resp"
proof -
  obtain cont prov mdl raw latency usage where r: "resp = LLMResponse cont prov mdl raw latency usage"
    by (cases resp)
  obtain pt ct tt where u: "usage = TokenUsage pt ct tt" by (cases usage)
  show ?thesis
    by (simp add: r u dict_to_llm_response_def dict_get_def TokenUsage_init_def)
qed

lemma truthy_llm_response_to_dict: "truthy (llm_response_to_dict resp)"
proof -
  obtain cont prov mdl raw latency usage where r: "resp = LLMResponse cont prov mdl raw latency usage"
    by (cases resp)
  obtain pt ct tt where u: "usage = TokenUsage pt ct tt" by (cases usage)
  show ?thesis by (simp add: r u)
qed

lemma set_ttl_seconds:
  "map_option ttl_seconds
     (persisted_entry (snd (LLMCache_set E self w prov mdl prompt resp temp ttl kwargs))
        (get_cache_path (compute_cache_key E prov mdl prompt temp kwargs))) =
   Some (JInt (py_or ttl (self_ttl_seconds self)))"
  by (simp add: persisted_entry_set)

lemma py_or_cases:
  "py_or None d = d" "py_or (Some 0) d = d" "n \<noteq> 0 \<Longrightarrow> py_or (Some n) d = n"
  by (simp_all add: py_or_def)

section \<open>Expiry\<close>

text \<open>
  \<^bold>\<open>C3.\<close> Expiry is decided when the entry is read, from \<^verbatim>\<open>created_at\<close>. For a
  persisted entry whose \<^verbatim>\<open>created_at\<close> and \<^verbatim>\<open>access_count\<close> are numbers, whose
  \<^verbatim>\<open>ttl_seconds\<close> is null or a number and whose response is not null: \<^verbatim>\<open>get\<close> returns
  \<^verbatim>\<open>None\<close> and leaves no file under the key exactly when \<^verbatim>\<open>ttl_seconds\<close> is a number
  and the clock reading of the test, less \<^verbatim>\<open>created_at\<close>, is greater than it; an entry
  whose \<^verbatim>\<open>ttl_seconds\<close> is null is returned and stays; and \<^verbatim>\<open>is_expired\<close> gives the same
  answer whatever \<^verbatim>\<open>accessed_at\<close> holds.
\<close>

theorem get_expires_lazily_from_creation:
  assumes "persisted_entry w (get_cache_path (compute_cache_key E prov mdl prompt temp kwargs)) = Some entry"
    and "num_of (created_at entry) = Some c"
    and "num_of (access_count entry) = Some k"
    and "response entry \<noteq> JNull"
    and "ttl_seconds entry = JNull \<or> num_of (ttl_seconds entry) \<noteq> None"
  shows "((fst (LLMCache_get E w prov mdl prompt temp kwargs) = Inr JNull \<and>
           map_of (files (snd (LLMCache_get E w prov mdl prompt temp kwargs)))
             (get_cache_path (compute_cache_key E prov mdl prompt temp kwargs)) = None)
          \<longleftrightarrow> (\<exists>ttl. num_of (ttl_seconds entry) = Some ttl \<and> time_time E (ticks w) - c > ttl))
       \<and> (ttl_seconds entry = JNull \<longrightarrow>
             fst (LLMCache_get E w prov mdl prompt temp kwargs) = Inr (response entry) \<and>
             map_of (files (snd (LLMCache_get E w prov mdl prompt temp kwargs)))
               (get_cache_path (compute_cache_key E prov mdl prompt temp kwargs)) \<noteq> None)
       \<and> is_expired E (entry\<lparr>accessed_at := a\<rparr>) w = is_expired E entry w"
proof -
  let ?p = "get_cache_path (compute_cache_key E prov mdl prompt temp kwargs)"
  let ?g = "LLMCache_get E w prov mdl prompt temp kwargs"
  obtain n where n: "py_add (access_count entry) (JInt 1) = Inr n"
    using py_add_one[OF assms(3)] by blast
  have indep: "is_expired E (entry\<lparr>accessed_at := a\<rparr>) w = is_expired E entry w"
    by (simp add: is_expired_def Let_def split: prod.splits option.splits)
  show ?thesis
  proof (cases "ttl_seconds entry = JNull")
    case True
    have "?g = (Inr (response entry),
                json_dump ?p (to_dict (entry\<lparr>accessed_at := JFloat (time_time E (ticks w)),
                                              access_count := n\<rparr>)) (w\<lparr>ticks := Suc (ticks w)\<rparr>))"
      by (rule get_hit[OF assms(1) is_expired_no_ttl[OF True] n])
    then show ?thesis using True assms(4) indep by (simp add: map_of_json_dump)
  next
    case False
    then obtain ttl where ttl: "num_of (ttl_seconds entry) = Some ttl"
      using assms(5) by auto
    note ex = is_expired_ttl[OF assms(2) ttl, of E w]
    show ?thesis
    proof (cases "time_time E (ticks w) - c > ttl")
      case True
      then have "?g = (Inr JNull, unlink ?p (w\<lparr>ticks := Suc (ticks w)\<rparr>))"
        using get_expired_gen[OF assms(1)] ex by simp
      then show ?thesis using True False ttl indep by (simp add: map_of_unlink)
    next
      case nexp: False
      then have "?g = (Inr (response entry),
                json_dump ?p (to_dict (entry\<lparr>accessed_at := JFloat (time_time E (Suc (ticks w))),
                                              access_count := n\<rparr>)) (w\<lparr>ticks := Suc (Suc (ticks w))\<rparr>))"
        using get_hit[OF assms(1) _ n] ex by simp
      then show ?thesis using nexp False ttl indep assms(4) by (simp add: map_of_json_dump)
    qed
  qed
qed

theorem get_expires_lazily_from_creation_witness:
  "persisted_entry (stored_world (Some 1)) (get_cache_path demo_key) \<noteq> None \<and>
   fst (LLMCache_get demo_env (stored_world (Some 1)) ''openai'' ''gpt-4o'' ''Hello''
          (JFloat (7 / 10)) []) = Inr JNull \<and>
   map_of (files (snd (LLMCache_get demo_env (stored_world (Some 1)) ''openai'' ''gpt-4o''
                         ''Hello'' (JFloat (7 / 10)) [])))
     (get_cache_path demo_key) = None"
proof -
  let ?e = "\<lparr>response = demo_response, cache_key = JStr demo_key,
           provider = JStr ''openai'', model = JStr ''gpt-4o'',
           prompt_hash = JStr (compute_prompt_hash demo_env ''Hello''),
           created_at = JFloat 0, accessed_at = JFloat 1, access_count = JInt 1,
           ttl_seconds = JInt (py_or (Some 1) 2592000),
           request_metadata = JObj [(''temperature'', JFloat (7 / 10))]\<rparr>"
  have h1: "persisted_entry (stored_world (Some 1))
              (get_cache_path (compute_cache_key demo_env ''openai'' ''gpt-4o'' ''Hello''
                 (JFloat (7 / 10)) [])) = Some ?e"
    using persisted_stored_world[of "Some 1"] by (simp add: demo_key_def)
  have h2: "num_of (created_at ?e) = Some 0" by simp
  have h3: "num_of (access_count ?e) = Some 1" by simp
  have h4: "response ?e \<noteq> JNull" by (simp add: demo_response_def)
  have h5: "ttl_seconds ?e = JNull \<or> num_of (ttl_seconds ?e) \<noteq> None" by simp
  have expired: "\<exists>ttl. num_of (ttl_seconds ?e) = Some ttl \<and>
                   time_time demo_env (ticks (stored_world (Some 1))) - 0 > ttl"
    by (simp add: ticks_stored_world py_or_def demo_env_def)
  show ?thesis
    using get_expires_lazily_from_creation [OF h1 h2 h3 h4 h5] expired h1
    by (simp add: demo_key_def)
qed

section \<open>Entries that are not entries\<close>

text \<open>
  \<^bold>\<open>C4.\<close> A file that \<^verbatim>\<open>json.load\<close> cannot decode is a miss and is deleted
  (\<open>get_undecodable\<close>). A file that holds JSON of another shape is not: \<^verbatim>\<open>cls(**data)\<close>
  raises \<^verbatim>\<open>TypeError\<close>, which the \<^verbatim>\<open>except\<close> clause of \<^verbatim>\<open>get\<close> does not name
  (\<open>get_bad_shape\<close>). Here the file under the key holds the JSON object \<^verbatim>\<open>{}\<close>:
  \<^verbatim>\<open>get\<close> raises \<^verbatim>\<open>TypeError\<close> and the file stays where it was.
\<close>

theorem get_bad_shape_raises:
  "LLMCache_get demo_env \<lparr>files = [(get_cache_path demo_key, Document (JObj []))], ticks = 0\<rparr>
       ''openai'' ''gpt-4o'' ''Hello'' (JFloat (7 / 10)) [] =
     (Inl TypeError, \<lparr>files = [(get_cache_path demo_key, Document (JObj []))], ticks = 0\<rparr>)"
proof -
  have "from_dict (JObj []) = Inl TypeError"
    by (simp add: from_dict_def CacheEntry_fields_def)
  then show ?thesis
    by (intro get_bad_shape[where data = "JObj []"]) (simp_all add: demo_key_def)
qed

section \<open>Time-to-live of a stored entry\<close>

text \<open>
  \<^bold>\<open>C5.\<close> The entry \<^verbatim>\<open>set\<close> stores has \<^verbatim>\<open>ttl_seconds or self.ttl_seconds\<close> as its
  time-to-live (\<open>set_ttl_seconds\<close>, \<open>py_or_cases\<close>), so an override of \<open>0\<close> is not
  kept: in a cache constructed without a time-to-live, \<^verbatim>\<open>set(..., ttl_seconds=0)\<close> stores
  the 30 days of the default, 2592000 seconds.
\<close>

theorem set_ttl_override_zero:
  "map_option ttl_seconds
     (persisted_entry
        (snd (LLMCache_set E (LLMCache_init pid None) w prov mdl prompt resp temp (Some 0) kwargs))
        (get_cache_path (compute_cache_key E prov mdl prompt temp kwargs))) =
   Some (JInt 2592000)"
  by (simp add: set_ttl_seconds LLMCache_init_def py_or_def DEFAULT_TTL_SECONDS_def)

section \<open>Access bookkeeping\<close>

text \<open>
  \<^bold>\<open>C6.\<close> Access bookkeeping, with the clock as the code reads it. \<^verbatim>\<open>set\<close> stores an
  entry with \<^verbatim>\<open>access_count = 1\<close>, \<^verbatim>\<open>created_at\<close> the clock reading taken first and
  \<^verbatim>\<open>accessed_at\<close> the reading taken next. Each of the two hits that follow returns the
  response, adds exactly one to the persisted \<^verbatim>\<open>access_count\<close> and stores the reading
  taken at the hit as \<^verbatim>\<open>accessed_at\<close>, leaving \<^verbatim>\<open>created_at\<close> as it was: after one
  \<^verbatim>\<open>set\<close> and two hits the persisted \<^verbatim>\<open>access_count\<close> is 3. The last conjunct
  is the step for a hit on any persisted entry under the key: the count goes from \<open>n\<close>
  to \<open>n + 1\<close>.
\<close>

theorem access_bookkeeping:
  assumes "LLMCache_set E self w prov mdl prompt resp temp ttl kwargs = (key, w1)"
    and "LLMCache_get E w1 prov mdl prompt temp kwargs = (r1, w2)"
    and "LLMCache_get E w2 prov mdl prompt temp kwargs = (r2, w3)"
    and "time_time E (ticks w + 2) - time_time E (ticks w)
           \<le> of_int (py_or ttl (self_ttl_seconds self))"
    and "time_time E (ticks w + 4) - time_time E (ticks w)
           \<le> of_int (py_or ttl (self_ttl_seconds self))"
  shows "map_option access_count (persisted_entry w1 (get_cache_path key)) = Some (JInt 1) \<and>
         map_option created_at (persisted_entry w1 (get_cache_path key))
           = Some (JFloat (time_time E (ticks w))) \<and>
         map_option accessed_at (persisted_entry w1 (get_cache_path key))
           = Some (JFloat (time_time E (ticks w + 1))) \<and>
         r1 = Inr resp \<and>
         map_option access_count (persisted_entry w2 (get_cache_path key)) = Some (JInt 2) \<and>
         map_option accessed_at (persisted_entry w2 (get_cache_path key))
           = Some (JFloat (time_time E (ticks w + 3))) \<and>
         r2 = Inr resp \<and>
         map_option access_count (persisted_entry w3 (get_cache_path key)) = Some (JInt 3) \<and>
         map_option accessed_at (persisted_entry w3 (get_cache_path key))
           = Some (JFloat (time_time E (ticks w + 5))) \<and>
         map_option created_at (persisted_entry w3 (get_cache_path key))
           = Some (JFloat (time_time E (ticks w))) \<and>
         (\<forall>v entry c t n.
            persisted_entry v (get_cache_path key) = Some entry \<and>
            created_at entry = JFloat c \<and> ttl_seconds entry = JInt t \<and>
            access_count entry = JInt n \<and> time_time E (ticks v) - c \<le> of_int t
            \<longrightarrow>
              fst (LLMCache_get E v prov mdl prompt temp kwargs) = Inr (response entry) \<and>
              persisted_entry (snd (LLMCache_get E v prov mdl prompt temp kwargs))
                  (get_cache_path key) =
                Some (entry\<lparr>accessed_at := JFloat (time_time E (ticks v + 1)),
                            access_count := JInt (n + 1)\<rparr>))"
proof -
  let ?p = "get_cache_path (compute_cache_key E prov mdl prompt temp kwargs)"
  let ?e1 = "\<lparr>response = resp,
           cache_key = JStr (compute_cache_key E prov mdl prompt temp kwargs),
           provider = JStr prov, model = JStr mdl,
           prompt_hash = JStr (compute_prompt_hash E prompt),
           created_at = JFloat (time_time E (ticks w)),
           accessed_at = JFloat (time_time E (Suc (ticks w))),
           access_count = JInt 1,
           ttl_seconds = JInt (py_or ttl (self_ttl_seconds self)),
           request_metadata = JObj (dict_unpack [(''temperature'', temp)] kwargs)\<rparr>"
  have key: "key = compute_cache_key E prov mdl prompt temp kwargs"
    using assms(1) by (auto simp add: LLMCache_set_eq)
  have w1: "w1 = snd (LLMCache_set E self w prov mdl prompt resp temp ttl kwargs)"
    using assms(1) by simp
  have p1: "persisted_entry w1 ?p = Some ?e1"
    unfolding w1 by (rule persisted_entry_set)
  have t1: "ticks w1 = ticks w + 2"
    by (simp add: w1 LLMCache_set_eq ticks_json_dump)
  have f1: "time_time E (ticks w1) - time_time E (ticks w)
              \<le> of_int (py_or ttl (self_ttl_seconds self))"
    using assms(4) by (simp add: t1)
  have s1: "fst (LLMCache_get E w1 prov mdl prompt temp kwargs) = Inr (response ?e1) \<and>
         persisted_entry (snd (LLMCache_get E w1 prov mdl prompt temp kwargs)) ?p =
           Some (?e1\<lparr>accessed_at := JFloat (time_time E (ticks w1 + 1)),
                       access_count := JInt (1 + 1)\<rparr>) \<and>
         ticks (snd (LLMCache_get E w1 prov mdl prompt temp kwargs)) = ticks w1 + 2"
    by (rule hit_step[OF p1 _ _ _ f1]) simp_all
  let ?e2 = "?e1\<lparr>accessed_at := JFloat (time_time E (ticks w1 + 1)), access_count := JInt (1 + 1)\<rparr>"
  have r1: "r1 = Inr resp" and p2: "persisted_entry w2 ?p = Some ?e2" and t2: "ticks w2 = ticks w + 4"
    using s1 assms(2) by (simp_all add: t1)
  have f2: "time_time E (ticks w2) - time_time E (ticks w)
              \<le> of_int (py_or ttl (self_ttl_seconds self))"
    using assms(5) by (simp add: t2)
  have s2: "fst (LLMCache_get E w2 prov mdl prompt temp kwargs) = Inr (response ?e2) \<and>
         persisted_entry (snd (LLMCache_get E w2 prov mdl prompt temp kwargs)) ?p =
           Some (?e2\<lparr>accessed_at := JFloat (time_time E (ticks w2 + 1)),
                       access_count := JInt (2 + 1)\<rparr>) \<and>
         ticks (snd (LLMCache_get E w2 prov mdl prompt temp kwargs)) = ticks w2 + 2"
    by (rule hit_step[OF p2 _ _ _ f2]) simp_all
  have r2: "r2 = Inr resp"
    and p3: "persisted_entry w3 ?p =
       Some (?e2\<lparr>accessed_at := JFloat (time_time E (ticks w2 + 1)), access_count := JInt (2 + 1)\<rparr>)"
    using s2 assms(3) by simp_all
  have every: "\<forall>v entry c t n.
            persisted_entry v ?p = Some entry \<and>
            created_at entry = JFloat c \<and> ttl_seconds entry = JInt t \<and>
            access_count entry = JInt n \<and> time_time E (ticks v) - c \<le> of_int t
            \<longrightarrow>
              fst (LLMCache_get E v prov mdl prompt temp kwargs) = Inr (response entry) \<and>
              persisted_entry (snd (LLMCache_get E v prov mdl prompt temp kwargs)) ?p =
                Some (entry\<lparr>accessed_at := JFloat (time_time E (ticks v + 1)),
                            access_count := JInt (n + 1)\<rparr>)"
    using hit_step [of _ E prov mdl prompt temp kwargs] by blast
  have scenario:
    "map_option access_count (persisted_entry w1 ?p) = Some (JInt 1) \<and>
     map_option created_at (persisted_entry w1 ?p) = Some (JFloat (time_time E (ticks w))) \<and>
     map_option accessed_at (persisted_entry w1 ?p)
       = Some (JFloat (time_time E (ticks w + 1))) \<and>
     r1 = Inr resp \<and>
     map_option access_count (persisted_entry w2 ?p) = Some (JInt 2) \<and>
     map_option accessed_at (persisted_entry w2 ?p)
       = Some (JFloat (time_time E (ticks w + 3))) \<and>
     r2 = Inr resp \<and>
     map_option access_count (persisted_entry w3 ?p) = Some (JInt 3) \<and>
     map_option accessed_at (persisted_entry w3 ?p)
       = Some (JFloat (time_time E (ticks w + 5))) \<and>
     map_option created_at (persisted_entry w3 ?p) = Some (JFloat (time_time E (ticks w)))"
    by (simp add: p1 p2 p3 r1 r2 t1 t2 eval_nat_numeral)
  show ?thesis
    unfolding key using scenario every by blast
qed

theorem access_bookkeeping_witness:
  "map_option access_count
     (persisted_entry
        (snd (LLMCache_get demo_env
                (snd (LLMCache_get demo_env (stored_world None) ''openai'' ''gpt-4o'' ''Hello''
                        (JFloat (7 / 10)) []))
                ''openai'' ''gpt-4o'' ''Hello'' (JFloat (7 / 10)) []))
        (get_cache_path demo_key)) = Some (JInt 3)"
proof -
  have s: "LLMCache_set demo_env demo_cache empty_world ''openai'' ''gpt-4o'' ''Hello''
             demo_response (JFloat (7 / 10)) None [] = (demo_key, stored_world None)"
    by (simp add: stored_world_def demo_key_def LLMCache_set_eq)
  have f1: "time_time demo_env (ticks empty_world + 2) - time_time demo_env (ticks empty_world)
              \<le> of_int (py_or None (self_ttl_seconds demo_cache))"
    by (simp add: demo_env_def empty_world_def demo_cache_def LLMCache_init_def py_or_def
          DEFAULT_TTL_SECONDS_def)
  have f2: "time_time demo_env (ticks empty_world + 4) - time_time demo_env (ticks empty_world)
              \<le> of_int (py_or None (self_ttl_seconds demo_cache))"
    by (simp add: demo_env_def empty_world_def demo_cache_def LLMCache_init_def py_or_def
          DEFAULT_TTL_SECONDS_def)
  show ?thesis
    using access_bookkeeping [OF s surjective_pairing surjective_pairing f1 f2] by blast
qed

text \<open>With a clock that advances between the two readings of \<^verbatim>\<open>set\<close>, the stored
  \<^verbatim>\<open>created_at\<close> and \<^verbatim>\<open>accessed_at\<close> differ.\<close>

theorem set_timestamps_differ:
  "map_option created_at (persisted_entry (stored_world None) (get_cache_path demo_key))
     = Some (JFloat 0) \<and>
   map_option accessed_at (persisted_entry (stored_world None) (get_cache_path demo_key))
     = Some (JFloat 1) \<and>
   JFloat 0 \<noteq> JFloat 1"
  by (simp add: persisted_stored_world)

section \<open>The gateway wrapper\<close>

text \<open>
  \<^bold>\<open>C7.\<close> When the lookup of \<^verbatim>\<open>call\<close> misses (it returns \<^verbatim>\<open>None\<close> or a payload that
  is false) and the wrapped gateway raises, the exception reaches the caller as it is and
  nothing is written for the failed call: the state is the one the lookup left. The lookup
  touches no file but the one under the key, and of that file one of four things is true:
  there was none, and nothing at all has changed; it was undecodable and has been deleted;
  it held an entry that had expired, and has been deleted; or it held a live entry whose
  response is false, and now holds the same entry with \<^verbatim>\<open>accessed_at\<close> set to the reading
  of the lookup and \<^verbatim>\<open>access_count\<close> increased by one.
\<close>

theorem call_miss_gateway_failure:
  assumes "enable_cache self"
    and "LLMCache_get E w (gw_provider (gateway self)) (gw_model (gateway self))
           (prompt_bundle_to_string E bundle) (temperature bundle)
           [(''max_tokens'', max_tokens bundle)] = (Inr cached, w1)"
    and "\<not> truthy cached"
    and "gw_call (gateway self) bundle = Inl err"
  shows "CachedLLMGateway_call E self w bundle = (Inl err, w1) \<and>
         (\<forall>path. path \<noteq> get_cache_path (compute_cache_key E (gw_provider (gateway self))
                                (gw_model (gateway self)) (prompt_bundle_to_string E bundle)
                                (temperature bundle) [(''max_tokens'', max_tokens bundle)])
                 \<longrightarrow> map_of (files w1) path = map_of (files w) path) \<and>
         (map_of (files w) (get_cache_path (compute_cache_key E (gw_provider (gateway self))
                                (gw_model (gateway self)) (prompt_bundle_to_string E bundle)
                                (temperature bundle) [(''max_tokens'', max_tokens bundle)])) = None
            \<longrightarrow> w1 = w) \<and>
         ((map_of (files w) (get_cache_path (compute_cache_key E (gw_provider (gateway self))
                                (gw_model (gateway self)) (prompt_bundle_to_string E bundle)
                                (temperature bundle) [(''max_tokens'', max_tokens bundle)])) = None
             \<and> w1 = w) \<or>
          (map_of (files w) (get_cache_path (compute_cache_key E (gw_provider (gateway self))
                                (gw_model (gateway self)) (prompt_bundle_to_string E bundle)
                                (temperature bundle) [(''max_tokens'', max_tokens bundle)]))
             = Some Undecodable
             \<and> files w1 = AList.delete (get_cache_path (compute_cache_key E
                                (gw_provider (gateway self))
                                (gw_model (gateway self)) (prompt_bundle_to_string E bundle)
                                (temperature bundle) [(''max_tokens'', max_tokens bundle)]))
                             (files w)) \<or>
          (\<exists>entry v.
             persisted_entry w (get_cache_path (compute_cache_key E (gw_provider (gateway self))
                                (gw_model (gateway self)) (prompt_bundle_to_string E bundle)
                                (temperature bundle) [(''max_tokens'', max_tokens bundle)]))
               = Some entry
             \<and> is_expired E entry w = (Inr True, v)
             \<and> files w1 = AList.delete (get_cache_path (compute_cache_key E
                                (gw_provider (gateway self))
                                (gw_model (gateway self)) (prompt_bundle_to_string E bundle)
                                (temperature bundle) [(''max_tokens'', max_tokens bundle)]))
                             (files w)) \<or>
          (\<exists>entry v n.
             persisted_entry w (get_cache_path (compute_cache_key E (gw_provider (gateway self))
                                (gw_model (gateway self)) (prompt_bundle_to_string E bundle)
                                (temperature bundle) [(''max_tokens'', max_tokens bundle)]))
               = Some entry
             \<and> is_expired E entry w = (Inr False, v)
             \<and> \<not> truthy (response entry)
             \<and> py_add (access_count entry) (JInt 1) = Inr n
             \<and> files w1 = AList.update (get_cache_path (compute_cache_key E
                                (gw_provider (gateway self))
                                (gw_model (gateway self)) (prompt_bundle_to_string E bundle)
                                (temperature bundle) [(''max_tokens'', max_tokens bundle)]))
                             (Document (to_dict (entry\<lparr>accessed_at := JFloat (time_time E (ticks v)),
                                                         access_count := n\<rparr>)))
                             (files w)))"
proof -
  let ?p = "get_cache_path (compute_cache_key E (gw_provider (gateway self))
                                (gw_model (gateway self)) (prompt_bundle_to_string E bundle)
                                (temperature bundle) [(''max_tokens'', max_tokens bundle)])"
  have c: "CachedLLMGateway_call E self w bundle = (Inl err, w1)"
    using assms by (simp add: CachedLLMGateway_call_def Let_def)
  have f: "\<And>path. path \<noteq> ?p \<Longrightarrow> map_of (files w1) path = map_of (files w) path"
    using get_frame[of _ E "gw_provider (gateway self)" "gw_model (gateway self)"
             "prompt_bundle_to_string E bundle" "temperature bundle"
             "[(''max_tokens'', max_tokens bundle)]" w] assms(2) by simp
  have a: "map_of (files w) ?p = None \<Longrightarrow> w1 = w"
    using assms(2) by (simp add: get_absent)
  have d: "(map_of (files w) ?p = None \<and> w1 = w) \<or>
          (map_of (files w) ?p = Some Undecodable \<and> files w1 = AList.delete ?p (files w)) \<or>
          (\<exists>entry v. persisted_entry w ?p = Some entry \<and> is_expired E entry w = (Inr True, v)
             \<and> files w1 = AList.delete ?p (files w)) \<or>
          (\<exists>entry v n. persisted_entry w ?p = Some entry \<and> is_expired E entry w = (Inr False, v)
             \<and> \<not> truthy (response entry)
             \<and> py_add (access_count entry) (JInt 1) = Inr n
             \<and> files w1 = AList.update ?p
                   (Document (to_dict (entry\<lparr>accessed_at := JFloat (time_time E (ticks v)),
                                               access_count := n\<rparr>)))
                   (files w))"
    using get_Inr_cases[OF assms(2)] assms(3)
    by (elim disjE exE conjE)
       (auto simp add: files_unlink files_json_dump dest: files_is_expired_eq)
  show ?thesis using c f a d by blast
qed

theorem call_miss_gateway_failure_witness:
  "fst (CachedLLMGateway_call demo_env (demo_self failing_gateway)
          (bundle_world demo_response (Some 1)) demo_bundle) = Inl (GatewayError ''503'') \<and>
   files (snd (CachedLLMGateway_call demo_env (demo_self failing_gateway)
                 (bundle_world demo_response (Some 1)) demo_bundle)) =
     AList.delete
       (get_cache_path (compute_cache_key demo_env ''openai'' ''gpt-4o''
          (prompt_bundle_to_string demo_env demo_bundle) (temperature demo_bundle)
          [(''max_tokens'', max_tokens demo_bundle)]))
       (files (bundle_world demo_response (Some 1))) \<and>
   fst (CachedLLMGateway_call demo_env (demo_self failing_gateway)
          (bundle_world (JObj []) None) demo_bundle) = Inl (GatewayError ''503'') \<and>
   map_option response
     (persisted_entry
        (snd (CachedLLMGateway_call demo_env (demo_self failing_gateway)
                (bundle_world (JObj []) None) demo_bundle))
        (get_cache_path (compute_cache_key demo_env ''openai'' ''gpt-4o''
           (prompt_bundle_to_string demo_env demo_bundle) (temperature demo_bundle)
           [(''max_tokens'', max_tokens demo_bundle)]))) = Some (JObj []) \<and>
   map_option access_count
     (persisted_entry
        (snd (CachedLLMGateway_call demo_env (demo_self failing_gateway)
                (bundle_world (JObj []) None) demo_bundle))
        (get_cache_path (compute_cache_key demo_env ''openai'' ''gpt-4o''
           (prompt_bundle_to_string demo_env demo_bundle) (temperature demo_bundle)
           [(''max_tokens'', max_tokens demo_bundle)]))) = Some (JInt 2)"
proof -
  let ?get = "\<lambda>w. LLMCache_get demo_env w ''openai'' ''gpt-4o''
                 (prompt_bundle_to_string demo_env demo_bundle) (temperature demo_bundle)
                 [(''max_tokens'', max_tokens demo_bundle)]"
  let ?p = "get_cache_path (compute_cache_key demo_env ''openai'' ''gpt-4o''
              (prompt_bundle_to_string demo_env demo_bundle) (temperature demo_bundle)
              [(''max_tokens'', max_tokens demo_bundle)])"
  have h1: "enable_cache (demo_self failing_gateway)"
    by (simp add: demo_self_def)
  have h4: "gw_call (gateway (demo_self failing_gateway)) demo_bundle = Inl (GatewayError ''503'')"
    by (simp add: demo_self_def failing_gateway_def)
  have n1: "\<not> truthy JNull" by simp
  have n2: "\<not> truthy (JObj [])" by simp
  have ge: "fst (?get (bundle_world demo_response (Some 1))) = Inr JNull"
    by code_simp
  have gf: "fst (?get (bundle_world (JObj []) None)) = Inr (JObj [])"
    by code_simp
  have he: "LLMCache_get demo_env (bundle_world demo_response (Some 1))
              (gw_provider (gateway (demo_self failing_gateway)))
              (gw_model (gateway (demo_self failing_gateway)))
              (prompt_bundle_to_string demo_env demo_bundle) (temperature demo_bundle)
              [(''max_tokens'', max_tokens demo_bundle)] =
            (Inr JNull, snd (?get (bundle_world demo_response (Some 1))))"
    using ge by (simp add: demo_self_def failing_gateway_def prod_eq_iff)
  have hf: "LLMCache_get demo_env (bundle_world (JObj []) None)
              (gw_provider (gateway (demo_self failing_gateway)))
              (gw_model (gateway (demo_self failing_gateway)))
              (prompt_bundle_to_string demo_env demo_bundle) (temperature demo_bundle)
              [(''max_tokens'', max_tokens demo_bundle)] =
            (Inr (JObj []), snd (?get (bundle_world (JObj []) None)))"
    using gf by (simp add: demo_self_def failing_gateway_def prod_eq_iff)
  have ce: "CachedLLMGateway_call demo_env (demo_self failing_gateway)
              (bundle_world demo_response (Some 1)) demo_bundle =
            (Inl (GatewayError ''503''), snd (?get (bundle_world demo_response (Some 1))))"
    using call_miss_gateway_failure [OF h1 he n1 h4] by blast
  have cf: "CachedLLMGateway_call demo_env (demo_self failing_gateway)
              (bundle_world (JObj []) None) demo_bundle =
            (Inl (GatewayError ''503''), snd (?get (bundle_world (JObj []) None)))"
    using call_miss_gateway_failure [OF h1 hf n2 h4] by blast
  have de: "files (snd (?get (bundle_world demo_response (Some 1)))) =
              AList.delete ?p (files (bundle_world demo_response (Some 1)))"
    by code_simp
  have df: "map_option response (persisted_entry (snd (?get (bundle_world (JObj []) None))) ?p)
              = Some (JObj [])"
    by code_simp
  have dc: "map_option access_count
              (persisted_entry (snd (?get (bundle_world (JObj []) None))) ?p) = Some (JInt 2)"
    by code_simp
  show ?thesis
    using de df dc by (simp add: ce cf)
qed

text \<open>The lookup that misses may itself change the directory: an entry that has expired
  is deleted by it, and the failed call leaves the directory without that file.\<close>

theorem call_miss_deletes_expired:
  "fst (LLMCache_get demo_env (bundle_world demo_response (Some 1)) ''openai'' ''gpt-4o''
          (prompt_bundle_to_string demo_env demo_bundle) (temperature demo_bundle)
          [(''max_tokens'', max_tokens demo_bundle)]) = Inr JNull \<and>
   fst (CachedLLMGateway_call demo_env (demo_self failing_gateway)
          (bundle_world demo_response (Some 1)) demo_bundle) = Inl (GatewayError ''503'') \<and>
   files (bundle_world demo_response (Some 1)) \<noteq> [] \<and>
   files (snd (CachedLLMGateway_call demo_env (demo_self failing_gateway)
                 (bundle_world demo_response (Some 1)) demo_bundle)) = []"
  by code_simp

text \<open>
  \<^bold>\<open>C8.\<close> \<^verbatim>\<open>stream\<close> yields the chunks of the wrapped gateway's stream, in order, and
  ends as it ends; whatever the directory holds, it is neither read nor changed, and no
  clock reading is taken.
\<close>

theorem stream_bypasses_cache:
  "CachedLLMGateway_stream self w bundle = (gw_stream (gateway self) bundle, w)"
proof -
  have "yield_each chunks = chunks" for chunks
    by (induction chunks) simp_all
  then show ?thesis
    by (simp add: CachedLLMGateway_stream_def split: prod.splits)
qed

text \<open>
  \<^bold>\<open>C10.\<close> \<^verbatim>\<open>call\<close> tests the truth value of the payload \<^verbatim>\<open>get\<close> finds stored. Let
  the file under the request's key hold a live entry (timestamps, count and time-to-live
  as \<^verbatim>\<open>set\<close> writes them). If its stored response is false, as the empty dictionary is,
  the call is a miss: the wrapped gateway is called; when it raises, so does \<^verbatim>\<open>call\<close>;
  when it answers, that answer is returned and stored under the same key as a fresh entry,
  field by field (\<^verbatim>\<open>content\<close>, \<^verbatim>\<open>provider\<close>, \<^verbatim>\<open>model\<close>, \<^verbatim>\<open>raw_response\<close>,
  \<^verbatim>\<open>latency_ms\<close>, \<^verbatim>\<open>usage\<close>), with \<^verbatim>\<open>access_count\<close> 1. If the stored response is
  true, the call is a hit: the result is the stored payload converted back, whatever the
  gateway would have said, and the entry stays with its access recorded; a payload that
  \<^verbatim>\<open>call\<close> itself stored comes back as the response it was made from. A stored
  dictionary is true exactly when it is not empty.
\<close>

theorem call_falsy_payload_is_miss:
  assumes "enable_cache self"
    and "persisted_entry w
           (get_cache_path (compute_cache_key E (gw_provider (gateway self))
              (gw_model (gateway self)) (prompt_bundle_to_string E bundle)
              (temperature bundle) [(''max_tokens'', max_tokens bundle)])) = Some entry"
    and "created_at entry = JFloat c"
    and "ttl_seconds entry = JInt t"
    and "access_count entry = JInt n"
    and "time_time E (ticks w) - c \<le> of_int t"
  shows "(\<not> truthy (response entry) \<longrightarrow>
            (\<forall>err. gw_call (gateway self) bundle = Inl err \<longrightarrow>
               fst (CachedLLMGateway_call E self w bundle) = Inl err) \<and>
            (\<forall>cont prov mdl raw latency pt ct tt.
               gw_call (gateway self) bundle =
                 Inr (LLMResponse cont prov mdl raw latency (TokenUsage pt ct tt)) \<longrightarrow>
               fst (CachedLLMGateway_call E self w bundle) =
                 Inr (LLMResponse cont prov mdl raw latency (TokenUsage pt ct tt)) \<and>
               map_option response
                 (persisted_entry (snd (CachedLLMGateway_call E self w bundle))
                    (get_cache_path (compute_cache_key E (gw_provider (gateway self))
                       (gw_model (gateway self)) (prompt_bundle_to_string E bundle)
                       (temperature bundle) [(''max_tokens'', max_tokens bundle)]))) =
                 Some (JObj [(''content'', cont), (''provider'', prov), (''model'', mdl),
                             (''raw_response'', raw), (''latency_ms'', latency),
                             (''usage'', JObj [(''prompt_tokens'', pt),
                                               (''completion_tokens'', ct),
                                               (''total_tokens'', tt)])]) \<and>
               map_option access_count
                 (persisted_entry (snd (CachedLLMGateway_call E self w bundle))
                    (get_cache_path (compute_cache_key E (gw_provider (gateway self))
                       (gw_model (gateway self)) (prompt_bundle_to_string E bundle)
                       (temperature bundle) [(''max_tokens'', max_tokens bundle)]))) =
                 Some (JInt 1))) \<and>
         (truthy (response entry) \<longrightarrow>
            CachedLLMGateway_call E self w bundle =
              (dict_to_llm_response (response entry),
               snd (LLMCache_get E w (gw_provider (gateway self)) (gw_model (gateway self))
                      (prompt_bundle_to_string E bundle) (temperature bundle)
                      [(''max_tokens'', max_tokens bundle)])) \<and>
            persisted_entry (snd (CachedLLMGateway_call E self w bundle))
                (get_cache_path (compute_cache_key E (gw_provider (gateway self))
                   (gw_model (gateway self)) (prompt_bundle_to_string E bundle)
                   (temperature bundle) [(''max_tokens'', max_tokens bundle)])) =
              Some (entry\<lparr>accessed_at := JFloat (time_time E (ticks w + 1)),
                          access_count := JInt (n + 1)\<rparr>)) \<and>
         (\<forall>resp. response entry = llm_response_to_dict resp \<longrightarrow>
            fst (CachedLLMGateway_call E self w bundle) = Inr resp) \<and>
         (\<forall>d. response entry = JObj d \<longrightarrow> (truthy (response entry) \<longleftrightarrow> d \<noteq> []))"
proof -
  let ?prov = "gw_provider (gateway self)"
  let ?mdl = "gw_model (gateway self)"
  let ?ps = "prompt_bundle_to_string E bundle"
  let ?kw = "[(''max_tokens'', max_tokens bundle)]"
  let ?p = "get_cache_path (compute_cache_key E ?prov ?mdl ?ps (temperature bundle) ?kw)"
  let ?g = "LLMCache_get E w ?prov ?mdl ?ps (temperature bundle) ?kw"
  have hit: "fst ?g = Inr (response entry) \<and>
             persisted_entry (snd ?g) ?p =
               Some (entry\<lparr>accessed_at := JFloat (time_time E (ticks w + 1)),
                           access_count := JInt (n + 1)\<rparr>) \<and>
             ticks (snd ?g) = ticks w + 2"
    by (rule hit_step[OF assms(2,3,4,5,6)])
  then obtain w1 where g: "?g = (Inr (response entry), w1)"
    by (metis prod.collapse)
  have w1: "snd ?g = w1" by (simp add: g)
  have miss_err: "fst (CachedLLMGateway_call E self w bundle) = Inl err"
    if "\<not> truthy (response entry)" "gw_call (gateway self) bundle = Inl err" for err
    using that assms(1) g by (simp add: CachedLLMGateway_call_def Let_def)
  have miss_ok: "CachedLLMGateway_call E self w bundle =
                   (Inr resp, snd (LLMCache_set E (cache self) w1 ?prov ?mdl ?ps
                                     (llm_response_to_dict resp) (temperature bundle) None ?kw))"
    if "\<not> truthy (response entry)" "gw_call (gateway self) bundle = Inr resp" for resp
    using that assms(1) g by (simp add: CachedLLMGateway_call_def Let_def split: prod.splits)
  have hit_call: "CachedLLMGateway_call E self w bundle =
                    (dict_to_llm_response (response entry), snd ?g)"
    if "truthy (response entry)"
    using that assms(1) g by (simp add: CachedLLMGateway_call_def Let_def)
  have c1: "\<not> truthy (response entry) \<longrightarrow>
            (\<forall>err. gw_call (gateway self) bundle = Inl err \<longrightarrow>
               fst (CachedLLMGateway_call E self w bundle) = Inl err) \<and>
            (\<forall>cont prov mdl raw latency pt ct tt.
               gw_call (gateway self) bundle =
                 Inr (LLMResponse cont prov mdl raw latency (TokenUsage pt ct tt)) \<longrightarrow>
               fst (CachedLLMGateway_call E self w bundle) =
                 Inr (LLMResponse cont prov mdl raw latency (TokenUsage pt ct tt)) \<and>
               map_option response
                 (persisted_entry (snd (CachedLLMGateway_call E self w bundle)) ?p) =
                 Some (JObj [(''content'', cont), (''provider'', prov), (''model'', mdl),
                             (''raw_response'', raw), (''latency_ms'', latency),
                             (''usage'', JObj [(''prompt_tokens'', pt),
                                               (''completion_tokens'', ct),
                                               (''total_tokens'', tt)])]) \<and>
               map_option access_count
                 (persisted_entry (snd (CachedLLMGateway_call E self w bundle)) ?p) =
                 Some (JInt 1))"
    using miss_err by (auto simp add: miss_ok persisted_entry_set)
  have c2: "truthy (response entry) \<longrightarrow>
            CachedLLMGateway_call E self w bundle =
              (dict_to_llm_response (response entry), snd ?g) \<and>
            persisted_entry (snd (CachedLLMGateway_call E self w bundle)) ?p =
              Some (entry\<lparr>accessed_at := JFloat (time_time E (ticks w + 1)),
                          access_count := JInt (n + 1)\<rparr>)"
    using hit by (simp add: hit_call)
  have c3: "\<forall>resp. response entry = llm_response_to_dict resp \<longrightarrow>
            fst (CachedLLMGateway_call E self w bundle) = Inr resp"
    using hit_call truthy_llm_response_to_dict dict_to_llm_response_inverse
    by (metis fst_conv)
  have c4: "\<forall>d. response entry = JObj d \<longrightarrow> (truthy (response entry) \<longleftrightarrow> d \<noteq> [])"
    by simp
  show ?thesis using c1 c2 c3 c4 by blast
qed

theorem call_falsy_payload_is_miss_witness:
  "map_option response
     (persisted_entry (bundle_world (JObj []) None)
        (get_cache_path (compute_cache_key demo_env ''openai'' ''gpt-4o''
           (prompt_bundle_to_string demo_env demo_bundle) (temperature demo_bundle)
           [(''max_tokens'', max_tokens demo_bundle)]))) = Some (JObj []) \<and>
   fst (CachedLLMGateway_call demo_env (demo_self demo_gateway) (bundle_world (JObj []) None)
          demo_bundle) = Inr demo_chunk \<and>
   map_option response
     (persisted_entry
        (snd (CachedLLMGateway_call demo_env (demo_self demo_gateway)
                (bundle_world (JObj []) None) demo_bundle))
        (get_cache_path (compute_cache_key demo_env ''openai'' ''gpt-4o''
           (prompt_bundle_to_string demo_env demo_bundle) (temperature demo_bundle)
           [(''max_tokens'', max_tokens demo_bundle)]))) =
     Some (JObj [(''content'', JStr ''Bonjour''), (''provider'', JStr ''openai''),
                 (''model'', JStr ''gpt-4o''), (''raw_response'', JNull),
                 (''latency_ms'', JInt 850),
                 (''usage'', JObj [(''prompt_tokens'', JInt 10), (''completion_tokens'', JInt 5),
                                   (''total_tokens'', JInt 15)])])"
proof -
  let ?ps = "prompt_bundle_to_string demo_env demo_bundle"
  let ?kw = "[(''max_tokens'', max_tokens demo_bundle)]"
  let ?key = "compute_cache_key demo_env ''openai'' ''gpt-4o'' ?ps (temperature demo_bundle) ?kw"
  let ?e = "\<lparr>response = JObj [], cache_key = JStr ?key, provider = JStr ''openai'',
            model = JStr ''gpt-4o'', prompt_hash = JStr (compute_prompt_hash demo_env ?ps),
            created_at = JFloat (time_time demo_env (ticks empty_world)),
            accessed_at = JFloat (time_time demo_env (Suc (ticks empty_world))),
            access_count = JInt 1,
            ttl_seconds = JInt (py_or None (self_ttl_seconds demo_cache)),
            request_metadata =
              JObj (dict_unpack [(''temperature'', temperature demo_bundle)] ?kw)\<rparr>"
  have pe: "persisted_entry (bundle_world (JObj []) None) (get_cache_path ?key) = Some ?e"
    unfolding bundle_world_def by (rule persisted_entry_set)
  have h1: "enable_cache (demo_self demo_gateway)"
    by (simp add: demo_self_def)
  have h2: "persisted_entry (bundle_world (JObj []) None)
              (get_cache_path (compute_cache_key demo_env
                 (gw_provider (gateway (demo_self demo_gateway)))
                 (gw_model (gateway (demo_self demo_gateway))) ?ps
                 (temperature demo_bundle) ?kw)) = Some ?e"
    using pe by (simp add: demo_self_def demo_gateway_def)
  have h3: "created_at ?e = JFloat (time_time demo_env (ticks empty_world))" by simp
  have h4: "ttl_seconds ?e = JInt (py_or None (self_ttl_seconds demo_cache))" by simp
  have h5: "access_count ?e = JInt 1" by simp
  have h6: "time_time demo_env (ticks (bundle_world (JObj []) None))
              - time_time demo_env (ticks empty_world)
              \<le> of_int (py_or None (self_ttl_seconds demo_cache))"
    by (simp add: bundle_world_def LLMCache_set_eq ticks_json_dump demo_env_def empty_world_def
          demo_cache_def LLMCache_init_def py_or_def DEFAULT_TTL_SECONDS_def)
  have falsy: "\<not> truthy (response ?e)" by simp
  have c: "gw_call (gateway (demo_self demo_gateway)) demo_bundle =
             Inr (LLMResponse (JStr ''Bonjour'') (JStr ''openai'') (JStr ''gpt-4o'') JNull
                    (JInt 850) (TokenUsage (JInt 10) (JInt 5) (JInt 15)))"
    by (simp add: demo_self_def demo_gateway_def demo_chunk_def)
  note T = call_falsy_payload_is_miss [OF h1 h2 h3 h4 h5 h6]
  have "fst (CachedLLMGateway_call demo_env (demo_self demo_gateway)
               (bundle_world (JObj []) None) demo_bundle) =
          Inr (LLMResponse (JStr ''Bonjour'') (JStr ''openai'') (JStr ''gpt-4o'') JNull
                 (JInt 850) (TokenUsage (JInt 10) (JInt 5) (JInt 15))) \<and>
        map_option response
          (persisted_entry
             (snd (CachedLLMGateway_call demo_env (demo_self demo_gateway)
                     (bundle_world (JObj []) None) demo_bundle))
             (get_cache_path (compute_cache_key demo_env
                 (gw_provider (gateway (demo_self demo_gateway)))
                 (gw_model (gateway (demo_self demo_gateway))) ?ps
                 (temperature demo_bundle) ?kw))) =
          Some (JObj [(''content'', JStr ''Bonjour''), (''provider'', JStr ''openai''),
                 (''model'', JStr ''gpt-4o''), (''raw_response'', JNull),
                 (''latency_ms'', JInt 850),
                 (''usage'', JObj [(''prompt_tokens'', JInt 10), (''completion_tokens'', JInt 5),
                                   (''total_tokens'', JInt 15)])])"
    using T falsy c by blast
  then show ?thesis
    using pe by (simp add: demo_self_def demo_gateway_def demo_chunk_def)
qed

section \<open>Statistics\<close>

lemma stats_file_undecodable:
  "stats_file E Undecodable a w =
     (Inr (a\<lparr>total_size_bytes := total_size_bytes a + int (st_size E Undecodable)\<rparr>), w)"
  by (simp add: stats_file_def json_load_def stats_except_def)

lemma stats_loop_undecodable:
  assumes "list_all (\<lambda>f. f = Undecodable) fs"
  shows "\<exists>n. stats_loop E fs a w = (Inr (a\<lparr>total_size_bytes := n\<rparr>), w)"
  using assms
proof (induction fs arbitrary: a)
  case Nil
  have "a = a\<lparr>total_size_bytes := total_size_bytes a\<rparr>" by simp
  then show ?case by (metis stats_loop.simps(1))
next
  case (Cons f fs)
  then have f: "f = Undecodable" and rest: "list_all (\<lambda>f. f = Undecodable) fs" by simp_all
  obtain n where
    "stats_loop E fs (a\<lparr>total_size_bytes := total_size_bytes a + int (st_size E Undecodable)\<rparr>) w
       = (Inr (a\<lparr>total_size_bytes := total_size_bytes a + int (st_size E Undecodable)\<rparr>
                \<lparr>total_size_bytes := n\<rparr>), w)"
    using Cons.IH[OF rest] by blast
  then show ?case by (auto simp add: f stats_file_undecodable)
qed

lemma get_stats_no_entries:
  assumes "list_all (\<lambda>f. f = Undecodable) (map snd (glob_json (files w)))"
  shows "\<exists>n. LLMCache_get_stats E w =
           (case true_div E (of_int n) (1024 * 1024) of
              Inl err \<Rightarrow> (Inl err, w)
            | Inr q \<Rightarrow>
                (Inr (JObj [(''total_entries'', JInt 0), (''expired_entries'', JInt 0),
                            (''active_entries'', JInt 0), (''total_size_bytes'', JInt n),
                            (''total_size_mb'', JFloat (py_round E q 2)),
                            (''total_accesses'', JInt 0), (''avg_accesses_per_entry'', JInt 0),
                            (''oldest_entry_age_days'', JInt 0),
                            (''newest_entry_age_days'', JInt 0)]), w))"
proof -
  obtain n where
    "stats_loop E (map snd (glob_json (files w)))
        \<lparr>total_entries = 0, expired_entries = 0, total_size_bytes = 0,
         total_accesses = JInt 0, oldest_entry = JNull, newest_entry = JNull\<rparr> w =
     (Inr (\<lparr>total_entries = 0, expired_entries = 0, total_size_bytes = 0,
         total_accesses = JInt 0, oldest_entry = JNull, newest_entry = JNull\<rparr>
           \<lparr>total_size_bytes := n\<rparr>), w)"
    using stats_loop_undecodable[OF assms] by blast
  then have "LLMCache_get_stats E w =
           (case true_div E (of_int n) (1024 * 1024) of
              Inl err \<Rightarrow> (Inl err, w)
            | Inr q \<Rightarrow>
                (Inr (JObj [(''total_entries'', JInt 0), (''expired_entries'', JInt 0),
                            (''active_entries'', JInt 0), (''total_size_bytes'', JInt n),
                            (''total_size_mb'', JFloat (py_round E q 2)),
                            (''total_accesses'', JInt 0), (''avg_accesses_per_entry'', JInt 0),
                            (''oldest_entry_age_days'', JInt 0),
                            (''newest_entry_age_days'', JInt 0)]), w))"
    by (simp add: LLMCache_get_stats_def size_mb_def avg_accesses_def age_days_def
          split: sum.splits)
  then show ?thesis by blast
qed

lemma get_stats_active_entries:
  assumes "fst (LLMCache_get_stats E w) = Inr stats"
  shows "\<exists>d t x. stats = JObj d \<and> map_of d ''total_entries'' = Some (JInt t) \<and>
           map_of d ''expired_entries'' = Some (JInt x) \<and>
           map_of d ''active_entries'' = Some (JInt (t - x))"
  using assms
  by (auto simp add: LLMCache_get_stats_def Let_def split: prod.splits sum.splits)

lemma stats_file_bad_shape:
  assumes "from_dict data = Inl err"
  shows "fst (stats_file E (Document data) a w) = Inl TypeError"
  using assms
  by (auto simp add: stats_file_def json_load_def stats_except_def from_dict_def
        split: json.splits if_splits)

text \<open>
  \<^bold>\<open>C9.\<close> A directory whose \<^verbatim>\<open>*.json\<close> files are all undecodable, or that has none,
  gets zeros unless the division of the total size overflows (\<open>get_stats_no_entries\<close>),
  and whenever \<^verbatim>\<open>get_stats\<close> returns,
  \<^verbatim>\<open>active_entries\<close> is \<^verbatim>\<open>total_entries - expired_entries\<close>
  (\<open>get_stats_active_entries\<close>). But a file that holds JSON of another shape is no
  parsable entry either, and on it \<^verbatim>\<open>cls(**data)\<close> raises \<^verbatim>\<open>TypeError\<close>, which the
  \<^verbatim>\<open>except\<close> clause of the loop does not name (\<open>stats_file_bad_shape\<close>). Here the
  directory holds one file, with the JSON object \<^verbatim>\<open>{}\<close>: \<^verbatim>\<open>get_stats\<close> raises
  \<^verbatim>\<open>TypeError\<close>.
\<close>

theorem get_stats_bad_shape_raises:
  "fst (LLMCache_get_stats demo_env
         \<lparr>files = [(''0a1b.json'', Document (JObj []))], ticks = 0\<rparr>) = Inl TypeError"
  by code_simp

end
